theory Spec2Isabelle
  imports Complex_Main "HOL-Library.Sublist"
begin

section \<open>Data model (types.ts)\<close>

text \<open>
  The interfaces of \<^verbatim>\<open>types.ts\<close> become records. Field names that several
  interfaces share (\<^verbatim>\<open>id\<close>, \<^verbatim>\<open>x\<close>, \<^verbatim>\<open>y\<close>) or that clash with HOL carry a suffix.
  A JavaScript \<^verbatim>\<open>number\<close> is the real number it stands for (not-a-number and the
  infinities are left out). Its arithmetic is not that of the reals: the one operation
  the code under study uses, the subtraction of two doubles, is an argument \<open>sub\<close> of
  the handlers that subtract, and nothing is assumed of it.
  An optional field (\<^verbatim>\<open>isError?\<close>, \<^verbatim>\<open>nodes?\<close>) is an \<open>option\<close>, \<open>None\<close> being
  \<^verbatim>\<open>undefined\<close>.
\<close>

type_synonym number = real

datatype Role = User | Model

record ChatMessage =
  role :: Role
  text_msg :: string
  isError :: "bool option"
  timestamp :: nat

text \<open>
  \<^verbatim>\<open>DocumentPage.file\<close> is a handle on the browser's \<^verbatim>\<open>File\<close>; only its
  \<^verbatim>\<open>type\<close> is ever read by the code, its name identifies it here.
  \<^verbatim>\<open>base64\<close> is assigned \<^verbatim>\<open>url.split(',')[1]\<close>, which is \<^verbatim>\<open>undefined\<close> for a
  URL without a comma, hence the \<open>option\<close>.
\<close>

record File =
  name_file :: string
  type_file :: string

record DocumentPage =
  id_page :: string
  url :: string
  file_page :: File
  base64 :: "string option"
  mimeType :: string

datatype AppState = IDLE | ANALYZING | READY | IMAGE_GEN

record AgentDiagramData =
  model_core :: string
  nervous_system :: string
  human_collaboration :: string
  tools_rag :: string
  deployment :: string

record DiagramNode =
  id_node :: string
  title :: string
  content :: string
  x_node :: number
  y_node :: number

record DiagramConnection =
  id_conn :: string
  fromNodeId :: string
  toX :: number
  toY :: number

record GeneratedAsset =
  svg :: "string option"
  background :: "string option"
  nodes :: "DiagramNode list option"
  connections :: "DiagramConnection list option"

datatype NodeType = user | orchestrator | logic_agent | creative_agent | interface

record WorkflowNode =
  id_wnode :: string
  type_wnode :: NodeType
  label_wnode :: string
  subLabel :: string
  description :: string
  theory_mapping :: string
  inputs :: "string list"
  outputs :: "string list"

record WorkflowEdge =
  from_edge :: NodeType
  to_edge :: NodeType
  label_edge :: string
  data_object :: string

record HciAnalysisData =
  summary :: string
  nodes_hci :: "WorkflowNode list"
  edges :: "WorkflowEdge list"


section \<open>The AI gateway (services/geminiService.ts)\<close>

text \<open>
  Every method of \<^verbatim>\<open>GeminiService\<close> awaits the hosted model once. What the model does
  is an argument of the embedding: the request either throws or yields a response whose
  \<^verbatim>\<open>text\<close> may be missing. A rejected promise is \<open>Inl\<close> of the error.
\<close>

datatype error =
  NotInitialized      \<comment> \<open>\<^verbatim>\<open>Gemini API not initialized\<close>\<close>
  | ChatNotStarted    \<comment> \<open>\<^verbatim>\<open>Chat session not started\<close>\<close>
  | RequestFailed     \<comment> \<open>the request to the model threw\<close>
  | JsonFailed        \<comment> \<open>\<^verbatim>\<open>JSON.parse\<close>, or reading its result, threw\<close>
  | NoImageData       \<comment> \<open>\<^verbatim>\<open>No image data found in response\<close>\<close>
  | PdfFailed         \<comment> \<open>a call into the PDF library rejected\<close>

datatype response = Throws | Response "string option"

text \<open>JavaScript's \<^verbatim>\<open>t || d\<close> on a string that may be undefined: the empty string is falsy.\<close>

definition truthy :: "string option \<Rightarrow> bool" where
  "truthy t = (case t of None \<Rightarrow> False | Some s \<Rightarrow> s \<noteq> [])"

definition or_else :: "string option \<Rightarrow> string \<Rightarrow> string" where
  "or_else t d = (case t of None \<Rightarrow> d | Some s \<Rightarrow> if s = [] then d else s)"

definition initializeChat :: "bool \<Rightarrow> response \<Rightarrow> error + string" where
  "initializeChat ai r =
     (if \<not> ai then Inl NotInitialized
      else case r of
        Throws \<Rightarrow> Inl RequestFailed
      | Response t \<Rightarrow> Inr (or_else t ''I've analyzed the document. What would you like to know?''))"

definition sendMessage :: "bool \<Rightarrow> response \<Rightarrow> error + string" where
  "sendMessage chatSession r =
     (if \<not> chatSession then Inl ChatNotStarted
      else case r of
        Throws \<Rightarrow> Inl RequestFailed
      | Response t \<Rightarrow> Inr (or_else t ''I couldn't generate a response.''))"

subsection \<open>analyzeForDiagram\<close>

text \<open>
  \<^verbatim>\<open>JSON.parse(text) as AgentDiagramData\<close> is an unchecked cast; the argument
  \<open>parsed\<close> is what the parse of the response text yields, \<open>None\<close> when it throws.
  It is consulted only when the text is truthy, as in the source.
\<close>

definition fallback :: AgentDiagramData where
  "fallback = \<lparr> model_core = ''Could not extract Model info'',
                nervous_system = ''Could not extract System info'',
                human_collaboration = ''Could not extract Human info'',
                tools_rag = ''Could not extract Tools info'',
                deployment = ''Could not extract Deployment info'' \<rparr>"

definition analyzeForDiagram ::
  "bool \<Rightarrow> response \<Rightarrow> AgentDiagramData option \<Rightarrow> error + AgentDiagramData" where
  "analyzeForDiagram ai r parsed =
     (if \<not> ai then Inl NotInitialized
      else (case r of
        Throws \<Rightarrow> Inr fallback
      | Response t \<Rightarrow>
          (if \<not> truthy t then Inr fallback
           else (case parsed of None \<Rightarrow> Inr fallback | Some d \<Rightarrow> Inr d))))"

subsection \<open>refineNodes\<close>

text \<open>
  The response schema asks for an object with an array \<^verbatim>\<open>nodes\<close> of objects with string
  fields \<^verbatim>\<open>id\<close>, \<^verbatim>\<open>title\<close>, \<^verbatim>\<open>content\<close>, none of them required. \<open>ReplyNode\<close> is one
  array element. The callback of \<^verbatim>\<open>map\<close> reads the clock and the random generator when
  the element has no usable id, so every element comes with the two readings (already
  rendered as text) that the callback would get.
\<close>

record ReplyNode =
  id_reply :: "string option"
  title_reply :: string
  content_reply :: string

datatype parsed_nodes =
  ParseThrows                                     \<comment> \<open>\<^verbatim>\<open>JSON.parse\<close> or \<^verbatim>\<open>json.nodes\<close> throws\<close>
  | Parsed "(ReplyNode \<times> string \<times> string) list option" \<comment> \<open>\<^verbatim>\<open>json.nodes\<close>, \<open>None\<close> if absent\<close>

definition generated_id :: "string \<Rightarrow> string \<Rightarrow> string" where
  "generated_id now rnd = ''node-'' @ now @ ''-'' @ rnd"

text \<open>The callback: \<^verbatim>\<open>currentNodes.find(cn => cn.id === n.id)\<close>, then the merged node.\<close>

definition merge_node :: "DiagramNode list \<Rightarrow> ReplyNode \<times> string \<times> string \<Rightarrow> DiagramNode" where
  "merge_node currentNodes e =
     (case e of (n, now, rnd) \<Rightarrow>
        let existing = find (\<lambda>cn. Some (id_node cn) = id_reply n) currentNodes
        in \<lparr> id_node = or_else (id_reply n) (generated_id now rnd),
             title = title_reply n,
             content = content_reply n,
             x_node = (case existing of Some cn \<Rightarrow> x_node cn | None \<Rightarrow> 50),
             y_node = (case existing of Some cn \<Rightarrow> y_node cn | None \<Rightarrow> 50) \<rparr>)"

definition refineNodes ::
  "bool \<Rightarrow> DiagramNode list \<Rightarrow> response \<Rightarrow> parsed_nodes \<Rightarrow> error + DiagramNode list" where
  "refineNodes ai currentNodes r parsed =
     (if \<not> ai then Inl NotInitialized
      else case r of
        Throws \<Rightarrow> Inl RequestFailed
      | Response t \<Rightarrow>
          (case (if truthy t then parsed else Parsed None) of
             ParseThrows \<Rightarrow> Inl JsonFailed
           | Parsed None \<Rightarrow> Inr []
           | Parsed (Some ns) \<Rightarrow> Inr (map (merge_node currentNodes) ns)))"


section \<open>Upload and conversion (App.tsx: processPdf, processFiles)\<close>

text \<open>
  What the browser and the PDF library do with a file is part of the input. An
  \<open>Upload\<close> is a file together with the answers the code would get for it:
  \<^item> \<open>read_up\<close>: the outcome of \<^verbatim>\<open>FileReader.readAsDataURL\<close> (\<^verbatim>\<open>onerror\<close>, or
    \<^verbatim>\<open>onload\<close> with the result string);
  \<^item> \<open>rid_up\<close>: \<^verbatim>\<open>Math.random().toString(36).substring(7)\<close> for the image path;
  \<^item> \<open>pdf_up\<close>: whether \<^verbatim>\<open>arrayBuffer\<close>/\<^verbatim>\<open>getDocument\<close> reject, and else, for each
    page \<open>1..numPages\<close> in order, whether \<^verbatim>\<open>getPage\<close>/\<^verbatim>\<open>render\<close> reject, whether
    \<^verbatim>\<open>getContext('2d')\<close> is null, or the string \<^verbatim>\<open>toDataURL\<close> returns with the
    random id drawn for the page.
\<close>

datatype read_result = ReadError | ReadOk string

datatype pdf_page = PageThrows | NoContext | Rendered string string

datatype pdf_result = LoadThrows | Loaded "pdf_page list"

record Upload =
  file_up :: File
  read_up :: read_result
  rid_up :: string
  pdf_up :: pdf_result

text \<open>\<^verbatim>\<open>s.split(',')\<close> and indexing an array, which is \<^verbatim>\<open>undefined\<close> out of range.\<close>

fun split_from :: "char \<Rightarrow> string \<Rightarrow> string \<Rightarrow> string list" where
  "split_from c piece [] = [piece]"
| "split_from c piece (x # xs) =
     (if x = c then piece # split_from c [] xs else split_from c (piece @ [x]) xs)"

definition split_on :: "char \<Rightarrow> string \<Rightarrow> string list" where
  "split_on c s = split_from c [] s"

definition element :: "'a list \<Rightarrow> nat \<Rightarrow> 'a option" where
  "element xs i = (if i < length xs then Some (xs ! i) else None)"

definition rendered_page :: "File \<Rightarrow> string \<Rightarrow> string \<Rightarrow> DocumentPage" where
  "rendered_page f base64Url rid =
     \<lparr> id_page = rid, url = base64Url, file_page = f,
       base64 = element (split_on CHR '','' base64Url) 1, mimeType = ''image/jpeg'' \<rparr>"

definition image_page :: "File \<Rightarrow> string \<Rightarrow> string \<Rightarrow> DocumentPage" where
  "image_page f dataUrl rid =
     \<lparr> id_page = rid, url = dataUrl, file_page = f,
       base64 = element (split_on CHR '','' dataUrl) 1, mimeType = type_file f \<rparr>"

text \<open>The loop of \<^verbatim>\<open>processPdf\<close> over the pages, \<open>newPages\<close> being its accumulator.\<close>

fun processPdf_loop :: "File \<Rightarrow> pdf_page list \<Rightarrow> DocumentPage list \<Rightarrow> error + DocumentPage list" where
  "processPdf_loop f [] newPages = Inr newPages"
| "processPdf_loop f (PageThrows # ps) newPages = Inl PdfFailed"
| "processPdf_loop f (NoContext # ps) newPages = processPdf_loop f ps newPages"
| "processPdf_loop f (Rendered u rid # ps) newPages =
     processPdf_loop f ps (newPages @ [rendered_page f u rid])"

definition processPdf :: "Upload \<Rightarrow> error + DocumentPage list" where
  "processPdf up =
     (case pdf_up up of
        LoadThrows \<Rightarrow> Inl PdfFailed
      | Loaded ps \<Rightarrow> processPdf_loop (file_up up) ps [])"

text \<open>
  The loop of \<^verbatim>\<open>processFiles\<close> over the files. A rejected \<^verbatim>\<open>processPdf\<close> leaves the
  loop for the outer \<^verbatim>\<open>catch\<close>; a failed read of an image is caught inside and the loop
  goes on.
\<close>

fun processFiles_loop :: "Upload list \<Rightarrow> DocumentPage list \<Rightarrow> error + DocumentPage list" where
  "processFiles_loop [] newPages = Inr newPages"
| "processFiles_loop (up # ups) newPages =
     (if type_file (file_up up) = ''application/pdf'' then
        (case processPdf up of
           Inl e \<Rightarrow> Inl e
         | Inr pdfPages \<Rightarrow> processFiles_loop ups (newPages @ pdfPages))
      else if prefix ''image/'' (type_file (file_up up)) then
        (case read_up up of
           ReadError \<Rightarrow> processFiles_loop ups newPages
         | ReadOk dataUrl \<Rightarrow>
             processFiles_loop ups (newPages @ [image_page (file_up up) dataUrl (rid_up up)]))
      else processFiles_loop ups newPages)"


section \<open>The application state (App.tsx)\<close>

record App =
  pages :: "DocumentPage list"
  messages :: "ChatMessage list"
  appState :: AppState
  isProcessing :: bool
  isConvertingPdf :: bool
  error_app :: "string option"
  showDiagram :: bool
  diagramData :: "AgentDiagramData option"
  isGeneratingDiagram :: bool
  showWorkflow :: bool
  workflowData :: "HciAnalysisData option"
  isAnalyzingWorkflow :: bool
  isExtractingText :: bool
  extractedText :: "string option"
  activeReferencePageId :: "string option"
  generatedAsset :: "GeneratedAsset option"
  isGeneratingImage :: bool

definition initial :: App where
  "initial = \<lparr> pages = [], messages = [], appState = IDLE, isProcessing = False,
      isConvertingPdf = False, error_app = None, showDiagram = False, diagramData = None,
      isGeneratingDiagram = False, showWorkflow = False, workflowData = None,
      isAnalyzingWorkflow = False, isExtractingText = False, extractedText = None,
      activeReferencePageId = None, generatedAsset = None, isGeneratingImage = False \<rparr>"

text \<open>
  An \<^verbatim>\<open>async\<close> handler runs to its \<^verbatim>\<open>await\<close>, and resumes when the promise settles;
  other events may be handled in between. Each such handler is therefore two functions:
  \<open>h_call\<close>, the state after the synchronous part together with the suspended call
  (if the handler got that far), and \<open>h_done\<close>, what the continuation does with the
  outcome. A state update written \<^verbatim>\<open>setX(prev => ...)\<close> applies to the state at
  that moment, as does every plain \<^verbatim>\<open>setX(v)\<close>.
\<close>

datatype target = svg_target | background_target

datatype pending =
  AwaitFiles "Upload list" bool   \<comment> \<open>\<^verbatim>\<open>processFiles\<close>; the flag: called by \<^verbatim>\<open>handleSketchUpload\<close>\<close>
  | AwaitAnalysis
  | AwaitSend
  | AwaitDiagram
  | AwaitWorkflow
  | AwaitExtract
  | AwaitImage
  | AwaitRefineNodes GeneratedAsset       \<comment> \<open>the asset the handler closed over\<close>
  | AwaitRefineBackground GeneratedAsset

subsection \<open>processFiles, handleFilesSelected, handleSketchUpload, handleRemovePage\<close>

definition processFiles_call :: "Upload list \<Rightarrow> bool \<Rightarrow> App \<Rightarrow> App \<times> pending option" where
  "processFiles_call files sketch s =
     (s\<lparr>isConvertingPdf := True, extractedText := None\<rparr>, Some (AwaitFiles files sketch))"

definition processFiles_done :: "Upload list \<Rightarrow> App \<Rightarrow> App \<times> DocumentPage list" where
  "processFiles_done files s =
     (case processFiles_loop files [] of
        Inr newPages \<Rightarrow> (s\<lparr>pages := pages s @ newPages, isConvertingPdf := False\<rparr>, newPages)
      | Inl e \<Rightarrow> (s\<lparr>error_app := Some ''Failed to process files. Please try again.'',
                      isConvertingPdf := False\<rparr>, []))"

definition handleFilesSelected_done :: "Upload list \<Rightarrow> App \<Rightarrow> App" where
  "handleFilesSelected_done files s = fst (processFiles_done files s)"

definition handleSketchUpload_done :: "Upload list \<Rightarrow> App \<Rightarrow> App" where
  "handleSketchUpload_done files s =
     (case processFiles_done files s of
        (s', []) \<Rightarrow> s'
      | (s', p # ps) \<Rightarrow> s'\<lparr>activeReferencePageId := Some (id_page p)\<rparr>)"

definition handleRemovePage :: "string \<Rightarrow> App \<Rightarrow> App" where
  "handleRemovePage i s =
     (let s1 = s\<lparr>pages := filter (\<lambda>p. id_page p \<noteq> i) (pages s)\<rparr>;
          s2 = (if activeReferencePageId s = Some i then s1\<lparr>activeReferencePageId := None\<rparr> else s1)
      in s2\<lparr>extractedText := None\<rparr>)"

subsection \<open>startAnalysis, handleSendMessage\<close>

definition startAnalysis_call :: "App \<Rightarrow> App \<times> pending option" where
  "startAnalysis_call s =
     (if pages s = [] then (s, None)
      else (s\<lparr>appState := ANALYZING, isProcessing := True, error_app := None\<rparr>,
            Some AwaitAnalysis))"

definition startAnalysis_done :: "error + string \<Rightarrow> nat \<Rightarrow> App \<Rightarrow> App" where
  "startAnalysis_done res now s =
     (case res of
        Inr responseText \<Rightarrow>
          s\<lparr>messages := [\<lparr>role = Model, text_msg = responseText, isError = None, timestamp = now\<rparr>],
            appState := READY, isProcessing := False\<rparr>
      | Inl e \<Rightarrow>
          s\<lparr>error_app := Some ''Failed to analyze documents. Please try again.'',
            appState := IDLE, isProcessing := False\<rparr>)"

definition handleSendMessage_call :: "string \<Rightarrow> nat \<Rightarrow> App \<Rightarrow> App \<times> pending option" where
  "handleSendMessage_call txt now s =
     (s\<lparr>messages := messages s @ [\<lparr>role = User, text_msg = txt, isError = None, timestamp = now\<rparr>],
        isProcessing := True\<rparr>,
      Some AwaitSend)"

definition handleSendMessage_done :: "error + string \<Rightarrow> nat \<Rightarrow> App \<Rightarrow> App" where
  "handleSendMessage_done res now s =
     (case res of
        Inr responseText \<Rightarrow>
          s\<lparr>messages := messages s @
               [\<lparr>role = Model, text_msg = responseText, isError = None, timestamp = now\<rparr>],
            isProcessing := False\<rparr>
      | Inl e \<Rightarrow>
          s\<lparr>messages := messages s @
               [\<lparr>role = Model,
                 text_msg = ''I encountered an error trying to respond. Please try again.'',
                 isError = Some True, timestamp = now\<rparr>],
            isProcessing := False\<rparr>)"

text \<open>The whole of \<^verbatim>\<open>handleSendMessage\<close> when nothing else happens while it waits.\<close>

definition handleSendMessage :: "string \<Rightarrow> nat \<Rightarrow> error + string \<Rightarrow> nat \<Rightarrow> App \<Rightarrow> App" where
  "handleSendMessage txt now res now' s =
     handleSendMessage_done res now' (fst (handleSendMessage_call txt now s))"

subsection \<open>The diagram, workflow and text-extraction tools\<close>

definition handleDownloadChat :: "App \<Rightarrow> App" where
  "handleDownloadChat s = s"

definition handleGenerateDiagram_call :: "App \<Rightarrow> App \<times> pending option" where
  "handleGenerateDiagram_call s =
     (if pages s = [] then (s, None)
      else (s\<lparr>isGeneratingDiagram := True\<rparr>, Some AwaitDiagram))"

definition handleGenerateDiagram_done :: "error + AgentDiagramData \<Rightarrow> App \<Rightarrow> App" where
  "handleGenerateDiagram_done res s =
     (case res of
        Inr d \<Rightarrow> s\<lparr>diagramData := Some d, showDiagram := True, isGeneratingDiagram := False\<rparr>
      | Inl e \<Rightarrow> s\<lparr>isGeneratingDiagram := False\<rparr>)"

definition handleGenerateWorkflow_call :: "App \<Rightarrow> App \<times> pending option" where
  "handleGenerateWorkflow_call s =
     (if pages s = [] then (s, None)
      else (s\<lparr>isAnalyzingWorkflow := True\<rparr>, Some AwaitWorkflow))"

definition handleGenerateWorkflow_done :: "error + HciAnalysisData \<Rightarrow> App \<Rightarrow> App" where
  "handleGenerateWorkflow_done res s =
     (case res of
        Inr d \<Rightarrow> s\<lparr>workflowData := Some d, showWorkflow := True, isAnalyzingWorkflow := False\<rparr>
      | Inl e \<Rightarrow> s\<lparr>isAnalyzingWorkflow := False\<rparr>)"

definition handleExtractText_call :: "App \<Rightarrow> App \<times> pending option" where
  "handleExtractText_call s =
     (if pages s = [] then (s, None)
      else (s\<lparr>isExtractingText := True\<rparr>, Some AwaitExtract))"

definition handleExtractText_done :: "error + string \<Rightarrow> App \<Rightarrow> App" where
  "handleExtractText_done res s =
     (case res of
        Inr t \<Rightarrow> s\<lparr>extractedText := Some t, isExtractingText := False\<rparr>
      | Inl e \<Rightarrow> s\<lparr>isExtractingText := False\<rparr>)"

subsection \<open>The creative studio: generation, refinement, mode and reference\<close>

text \<open>\<^verbatim>\<open>pages.find(p => p.id === activeReferencePageId)\<close>\<close>

definition referencePage :: "App \<Rightarrow> DocumentPage option" where
  "referencePage s = find (\<lambda>p. Some (id_page p) = activeReferencePageId s) (pages s)"

definition handleImageGeneration_call :: "App \<Rightarrow> App \<times> pending option" where
  "handleImageGeneration_call s =
     (case referencePage s of
        None \<Rightarrow> (s, None)
      | Some p \<Rightarrow> (s\<lparr>isGeneratingImage := True\<rparr>, Some AwaitImage))"

definition handleImageGeneration_done :: "error + GeneratedAsset \<Rightarrow> App \<Rightarrow> App" where
  "handleImageGeneration_done res s =
     (case res of
        Inr asset \<Rightarrow> s\<lparr>generatedAsset := Some asset, isGeneratingImage := False\<rparr>
      | Inl e \<Rightarrow> s\<lparr>isGeneratingImage := False\<rparr>)"

text \<open>
  \<^verbatim>\<open>handleImageRefinement\<close> awaits only when the asset has the part to refine; otherwise
  it runs through \<^verbatim>\<open>finally\<close> at once.
\<close>

definition handleImageRefinement_call :: "target \<Rightarrow> App \<Rightarrow> App \<times> pending option" where
  "handleImageRefinement_call tg s =
     (case generatedAsset s of
        None \<Rightarrow> (s, None)
      | Some a \<Rightarrow>
          (case tg of
             svg_target \<Rightarrow>
               (case nodes a of
                  Some ns \<Rightarrow> (s\<lparr>isGeneratingImage := True\<rparr>, Some (AwaitRefineNodes a))
                | None \<Rightarrow> (s\<lparr>isGeneratingImage := False\<rparr>, None))
           | background_target \<Rightarrow>
               (if truthy (background a)
                then (s\<lparr>isGeneratingImage := True\<rparr>, Some (AwaitRefineBackground a))
                else (s\<lparr>isGeneratingImage := False\<rparr>, None))))"

definition refineNodes_done :: "GeneratedAsset \<Rightarrow> error + DiagramNode list \<Rightarrow> App \<Rightarrow> App" where
  "refineNodes_done a res s =
     (case res of
        Inr refinedNodes \<Rightarrow>
          s\<lparr>generatedAsset := Some (a\<lparr>nodes := Some refinedNodes\<rparr>), isGeneratingImage := False\<rparr>
      | Inl e \<Rightarrow> s\<lparr>isGeneratingImage := False\<rparr>)"

definition refineBackground_done :: "GeneratedAsset \<Rightarrow> error + string \<Rightarrow> App \<Rightarrow> App" where
  "refineBackground_done a res s =
     (case res of
        Inr bgCode \<Rightarrow>
          s\<lparr>generatedAsset := Some (a\<lparr>background := Some bgCode\<rparr>), isGeneratingImage := False\<rparr>
      | Inl e \<Rightarrow> s\<lparr>isGeneratingImage := False\<rparr>)"

definition handleAssetUpdate :: "GeneratedAsset \<Rightarrow> App \<Rightarrow> App" where
  "handleAssetUpdate updatedAsset s = s\<lparr>generatedAsset := Some updatedAsset\<rparr>"

definition handleResetImage :: "App \<Rightarrow> App" where
  "handleResetImage s = s\<lparr>generatedAsset := None\<rparr>"

definition toggleImageMode :: "App \<Rightarrow> App" where
  "toggleImageMode s =
     (if appState s = IMAGE_GEN
      then s\<lparr>appState := (if messages s \<noteq> [] then READY else IDLE)\<rparr>
      else (let s1 = s\<lparr>appState := IMAGE_GEN\<rparr>
            in if \<not> truthy (activeReferencePageId s) \<and> pages s \<noteq> []
               then s1\<lparr>activeReferencePageId := Some (id_page (hd (pages s)))\<rparr>
               else s1))"

text \<open>The sidebar's \<^verbatim>\<open>onSelectReference\<close>: \<^verbatim>\<open>(page) => setActiveReferencePageId(page.id)\<close>\<close>

definition selectReference :: "DocumentPage \<Rightarrow> App \<Rightarrow> App" where
  "selectReference page s = s\<lparr>activeReferencePageId := Some (id_page page)\<rparr>"

definition closeDiagram :: "App \<Rightarrow> App" where
  "closeDiagram s = s\<lparr>showDiagram := False\<rparr>"

definition closeWorkflow :: "App \<Rightarrow> App" where
  "closeWorkflow s = s\<lparr>showWorkflow := False\<rparr>"

definition closeExtractedText :: "App \<Rightarrow> App" where
  "closeExtractedText s = s\<lparr>extractedText := None\<rparr>"

subsection \<open>Events: what the rendered interface lets happen\<close>

text \<open>
  An event is a user action on a control that \<^verbatim>\<open>App\<close> renders (with the guard under
  which the control is rendered and not disabled), or the settling of a promise that
  a handler awaits. The guards follow the JSX of \<^verbatim>\<open>App.tsx\<close>,
  \<^verbatim>\<open>DocumentSidebar.tsx\<close>, \<^verbatim>\<open>UploadZone.tsx\<close> and \<^verbatim>\<open>ImageGenerator.tsx\<close>.
  The chat panel is rendered in the states \<open>READY\<close> and \<open>ANALYZING\<close>; nothing more is
  assumed about when it calls \<^verbatim>\<open>onSendMessage\<close>. A prompt is not modelled: the
  handlers pass it to the hosted model only.
\<close>

datatype event =
  FilesSelected "Upload list"
  | SketchUpload "Upload list"
  | FilesDone "Upload list" bool
  | RemovePage string
  | StartAnalysis
  | AnalysisDone "error + string" nat
  | SendMessage string nat
  | SendDone "error + string" nat
  | DownloadChat
  | GenerateDiagram
  | DiagramDone "error + AgentDiagramData"
  | GenerateWorkflow
  | WorkflowDone "error + HciAnalysisData"
  | ExtractText
  | ExtractDone "error + string"
  | ImageGeneration
  | ImageDone "error + GeneratedAsset"
  | ImageRefinement target
  | RefineNodesDone GeneratedAsset "error + DiagramNode list"
  | RefineBackgroundDone GeneratedAsset "error + string"
  | AssetUpdate GeneratedAsset
  | ResetImage
  | CreativeButton
  | ChatButton
  | SelectReference DocumentPage
  | CloseDiagram
  | CloseWorkflow
  | CloseExtractedText

text \<open>The first \<^verbatim>\<open>return\<close> of \<^verbatim>\<open>App\<close> renders the upload zone alone.\<close>

definition main_view :: "App \<Rightarrow> bool" where
  "main_view s = (\<not> (pages s = [] \<and> appState s = IDLE))"

text \<open>The sidebar's \<^verbatim>\<open>isAnalyzing\<close>, which disables its controls.\<close>

definition busy :: "App \<Rightarrow> bool" where
  "busy s = (appState s = ANALYZING \<or> isProcessing s \<or> isConvertingPdf s \<or> isGeneratingImage s)"

text \<open>The upload zone and the sidebar keep images and PDFs only.\<close>

definition accepted :: "Upload list \<Rightarrow> Upload list" where
  "accepted files =
     filter (\<lambda>up. prefix ''image/'' (type_file (file_up up)) \<or> type_file (file_up up) = ''application/pdf'')
       files"

definition suspend :: "App \<times> pending option \<Rightarrow> pending list \<Rightarrow> App \<times> pending list" where
  "suspend r w = (case r of (s, None) \<Rightarrow> (s, w) | (s, Some c) \<Rightarrow> (s, w @ [c]))"

definition resume :: "pending \<Rightarrow> App \<Rightarrow> pending list \<Rightarrow> (App \<times> pending list) option" where
  "resume c s w = (if c \<in> set w then Some (s, remove1 c w) else None)"

definition guard :: "bool \<Rightarrow> App \<times> pending list \<Rightarrow> (App \<times> pending list) option" where
  "guard b r = (if b then Some r else None)"

fun step :: "event \<Rightarrow> App \<times> pending list \<Rightarrow> (App \<times> pending list) option" where
  "step (FilesSelected files) (s, w) =
     guard (files \<noteq> [] \<and> (\<not> main_view s \<or> \<not> busy s))
       (suspend (processFiles_call (accepted files) False s) w)"
| "step (SketchUpload files) (s, w) =
     guard (files \<noteq> [] \<and> main_view s \<and> appState s = IMAGE_GEN \<and> referencePage s = None)
       (suspend (processFiles_call files True s) w)"
| "step (FilesDone files sketch) (s, w) =
     resume (AwaitFiles files sketch)
       (if sketch then handleSketchUpload_done files s else handleFilesSelected_done files s) w"
| "step (RemovePage i) (s, w) =
     guard (main_view s \<and> \<not> busy s \<and> i \<in> id_page ` set (pages s)
            \<and> \<not> (appState s = IMAGE_GEN \<and> activeReferencePageId s = Some i))
       (handleRemovePage i s, w)"
| "step StartAnalysis (s, w) =
     guard (main_view s \<and> appState s = IDLE \<and> \<not> isConvertingPdf s)
       (suspend (startAnalysis_call s) w)"
| "step (AnalysisDone res now) (s, w) = resume AwaitAnalysis (startAnalysis_done res now s) w"
| "step (SendMessage txt now) (s, w) =
     guard (main_view s \<and> (appState s = READY \<or> appState s = ANALYZING))
       (suspend (handleSendMessage_call txt now s) w)"
| "step (SendDone res now) (s, w) = resume AwaitSend (handleSendMessage_done res now s) w"
| "step DownloadChat (s, w) =
     guard (main_view s \<and> appState s = READY) (handleDownloadChat s, w)"
| "step GenerateDiagram (s, w) =
     guard (main_view s \<and> \<not> isGeneratingDiagram s \<and> appState s \<noteq> IMAGE_GEN)
       (suspend (handleGenerateDiagram_call s) w)"
| "step (DiagramDone res) (s, w) = resume AwaitDiagram (handleGenerateDiagram_done res s) w"
| "step GenerateWorkflow (s, w) =
     guard (main_view s \<and> \<not> isAnalyzingWorkflow s) (suspend (handleGenerateWorkflow_call s) w)"
| "step (WorkflowDone res) (s, w) = resume AwaitWorkflow (handleGenerateWorkflow_done res s) w"
| "step ExtractText (s, w) =
     guard (main_view s \<and> \<not> isExtractingText s) (suspend (handleExtractText_call s) w)"
| "step (ExtractDone res) (s, w) = resume AwaitExtract (handleExtractText_done res s) w"
| "step ImageGeneration (s, w) =
     guard (main_view s \<and> appState s = IMAGE_GEN \<and> generatedAsset s = None
            \<and> referencePage s \<noteq> None \<and> \<not> isGeneratingImage s)
       (suspend (handleImageGeneration_call s) w)"
| "step (ImageDone res) (s, w) = resume AwaitImage (handleImageGeneration_done res s) w"
| "step (ImageRefinement tg) (s, w) =
     guard (main_view s \<and> appState s = IMAGE_GEN \<and> generatedAsset s \<noteq> None
            \<and> \<not> isGeneratingImage s)
       (suspend (handleImageRefinement_call tg s) w)"
| "step (RefineNodesDone a res) (s, w) = resume (AwaitRefineNodes a) (refineNodes_done a res s) w"
| "step (RefineBackgroundDone a res) (s, w) =
     resume (AwaitRefineBackground a) (refineBackground_done a res s) w"
| "step (AssetUpdate a) (s, w) =
     guard (main_view s \<and> appState s = IMAGE_GEN \<and> generatedAsset s \<noteq> None)
       (handleAssetUpdate a s, w)"
| "step ResetImage (s, w) =
     guard (main_view s \<and> appState s = IMAGE_GEN \<and> generatedAsset s \<noteq> None)
       (handleResetImage s, w)"
| "step CreativeButton (s, w) = guard (main_view s) (toggleImageMode s, w)"
| "step ChatButton (s, w) =
     guard (main_view s) ((if appState s = IMAGE_GEN then toggleImageMode s else s), w)"
| "step (SelectReference page) (s, w) =
     guard (main_view s \<and> appState s = IMAGE_GEN \<and> page \<in> set (pages s))
       (selectReference page s, w)"
| "step CloseDiagram (s, w) =
     guard (main_view s \<and> showDiagram s \<and> diagramData s \<noteq> None) (closeDiagram s, w)"
| "step CloseWorkflow (s, w) =
     guard (main_view s \<and> showWorkflow s \<and> workflowData s \<noteq> None) (closeWorkflow s, w)"
| "step CloseExtractedText (s, w) =
     guard (main_view s \<and> truthy (extractedText s)) (closeExtractedText s, w)"

fun run :: "event list \<Rightarrow> App \<times> pending list \<Rightarrow> (App \<times> pending list) option" where
  "run [] c = Some c"
| "run (e # es) c = (case step e c of None \<Rightarrow> None | Some c' \<Rightarrow> run es c')"

inductive reachable :: "App \<times> pending list \<Rightarrow> bool" where
  start: "reachable (initial, [])"
| after: "reachable c \<Longrightarrow> step e c = Some c' \<Longrightarrow> reachable c'"


section \<open>The canvas editor (components/ImageGenerator.tsx)\<close>

text \<open>
  The component's own state. Its props \<^verbatim>\<open>generatedAsset\<close> (the parent's asset) and
  \<^verbatim>\<open>onAssetUpdate\<close> are arguments and results of the handlers: a handler returns the
  editor state after its \<^verbatim>\<open>set...\<close> calls, and the assets it passed to
  \<^verbatim>\<open>onAssetUpdate\<close>, in order.

  A handler is a closure of the render it belongs to: the variables \<^verbatim>\<open>nodes\<close>,
  \<^verbatim>\<open>connections\<close>, \<^verbatim>\<open>generatedAsset\<close> it reads are those of the state it was
  rendered with (the argument \<open>ed\<close>), whatever \<^verbatim>\<open>set...\<close> calls it has made before
  reading them.
\<close>

record Point =
  x_pt :: number
  y_pt :: number

record Editor =
  prompt :: string
  refineTarget :: target
  nodes_ed :: "DiagramNode list"
  connections_ed :: "DiagramConnection list"
  selectedNodeId :: "string option"
  isDragging :: bool
  dragOffset :: Point
  isDrawingLine :: bool
  lineStartNodeId :: "string option"
  mousePos :: Point

definition initial_ed :: Editor where
  "initial_ed = \<lparr> prompt = [], refineTarget = svg_target, nodes_ed = [], connections_ed = [],
      selectedNodeId = None, isDragging = False, dragOffset = \<lparr>x_pt = 0, y_pt = 0\<rparr>,
      isDrawingLine = False, lineStartNodeId = None, mousePos = \<lparr>x_pt = 0, y_pt = 0\<rparr> \<rparr>"

text \<open>The effect that copies the prop into the local state, run when the prop changes.\<close>

definition sync_effect :: "GeneratedAsset option \<Rightarrow> Editor \<Rightarrow> Editor" where
  "sync_effect asset ed =
     (case asset of
        None \<Rightarrow> ed
      | Some a \<Rightarrow>
          (let ed1 = (case nodes a of Some ns \<Rightarrow> ed\<lparr>nodes_ed := ns\<rparr> | None \<Rightarrow> ed)
           in case connections a of Some cs \<Rightarrow> ed1\<lparr>connections_ed := cs\<rparr> | None \<Rightarrow> ed1))"

definition saveState :: "GeneratedAsset option \<Rightarrow> Editor \<Rightarrow> GeneratedAsset list" where
  "saveState asset ed =
     (case asset of
        None \<Rightarrow> []
      | Some a \<Rightarrow> [a\<lparr>nodes := Some (nodes_ed ed), connections := Some (connections_ed ed)\<rparr>])"

text \<open>
  Mouse handlers get the pointer position \<open>client\<close> (\<^verbatim>\<open>clientX\<close>, \<^verbatim>\<open>clientY\<close>), the
  card's corner \<open>rect\<close> (\<^verbatim>\<open>left\<close>, \<^verbatim>\<open>top\<close>) and the container's corner, \<open>None\<close> when
  \<^verbatim>\<open>containerRef.current\<close> is null. \<open>sub a b\<close> is JavaScript's \<^verbatim>\<open>a - b\<close>.
\<close>

type_synonym subtraction = "number \<Rightarrow> number \<Rightarrow> number"

definition handleCardMouseDown ::
  "subtraction \<Rightarrow> Point \<Rightarrow> Point \<Rightarrow> Point option \<Rightarrow> DiagramNode \<Rightarrow> Editor \<Rightarrow> Editor" where
  "handleCardMouseDown sub client rect containerRect node ed =
     (if isDrawingLine ed then ed
      else (let ed1 = ed\<lparr>selectedNodeId := Some (id_node node), isDragging := True\<rparr>
            in case containerRect of
                 None \<Rightarrow> ed1
               | Some c \<Rightarrow> ed1\<lparr>dragOffset := \<lparr>x_pt = sub (x_pt client) (x_pt rect),
                                               y_pt = sub (y_pt client) (y_pt rect)\<rparr>\<rparr>))"

definition handleContainerMouseMove ::
  "subtraction \<Rightarrow> Point \<Rightarrow> Point option \<Rightarrow> Editor \<Rightarrow> Editor" where
  "handleContainerMouseMove sub client containerRect ed =
     (case containerRect of
        None \<Rightarrow> ed
      | Some c \<Rightarrow>
          (let relativeX = sub (x_pt client) (x_pt c);
               relativeY = sub (y_pt client) (y_pt c);
               ed1 = ed\<lparr>mousePos := \<lparr>x_pt = relativeX, y_pt = relativeY\<rparr>\<rparr>
           in if isDragging ed \<and> truthy (selectedNodeId ed)
              then ed1\<lparr>nodes_ed :=
                     map (\<lambda>n. if Some (id_node n) = selectedNodeId ed
                               then n\<lparr>x_node := sub relativeX (x_pt (dragOffset ed)),
                                      y_node := sub relativeY (y_pt (dragOffset ed))\<rparr>
                               else n)
                       (nodes_ed ed)\<rparr>
              else ed1))"

text \<open>\<open>now\<close> is \<^verbatim>\<open>Date.now()\<close> as text, for the identifier of the new connection.\<close>

definition handleContainerMouseUp ::
  "GeneratedAsset option \<Rightarrow> string \<Rightarrow> Editor \<Rightarrow> Editor \<times> GeneratedAsset list" where
  "handleContainerMouseUp asset now ed =
     (let ed1 = (if isDragging ed then ed\<lparr>isDragging := False\<rparr> else ed);
          saved1 = (if isDragging ed then saveState asset ed else [])
      in if isDrawingLine ed \<and> truthy (lineStartNodeId ed)
         then (let newConnection =
                     \<lparr> id_conn = ''conn-'' @ now, fromNodeId = the (lineStartNodeId ed),
                       toX = x_pt (mousePos ed), toY = y_pt (mousePos ed) \<rparr>
               in (ed1\<lparr>connections_ed := connections_ed ed1 @ [newConnection],
                       isDrawingLine := False, lineStartNodeId := None\<rparr>,
                   saved1 @ saveState asset ed))
         else (ed1, saved1))"

text \<open>\<^verbatim>\<open>Partial<DiagramNode>\<close> and the spread \<^verbatim>\<open>{ ...n, ...updates }\<close>\<close>

record PartialNode =
  id_upd :: "string option"
  title_upd :: "string option"
  content_upd :: "string option"
  x_upd :: "number option"
  y_upd :: "number option"

definition spread :: "DiagramNode \<Rightarrow> PartialNode \<Rightarrow> DiagramNode" where
  "spread n u =
     \<lparr> id_node = (case id_upd u of Some v \<Rightarrow> v | None \<Rightarrow> id_node n),
       title = (case title_upd u of Some v \<Rightarrow> v | None \<Rightarrow> title n),
       content = (case content_upd u of Some v \<Rightarrow> v | None \<Rightarrow> content n),
       x_node = (case x_upd u of Some v \<Rightarrow> v | None \<Rightarrow> x_node n),
       y_node = (case y_upd u of Some v \<Rightarrow> v | None \<Rightarrow> y_node n) \<rparr>"

definition updateSelectedNode :: "PartialNode \<Rightarrow> Editor \<Rightarrow> Editor" where
  "updateSelectedNode updates ed =
     (if \<not> truthy (selectedNodeId ed) then ed
      else ed\<lparr>nodes_ed :=
             map (\<lambda>n. if Some (id_node n) = selectedNodeId ed then spread n updates else n)
               (nodes_ed ed)\<rparr>)"

definition startConnection ::
  "subtraction \<Rightarrow> Point \<Rightarrow> Point option \<Rightarrow> string \<Rightarrow> Editor \<Rightarrow> Editor" where
  "startConnection sub client containerRect nodeId ed =
     (let ed1 = ed\<lparr>lineStartNodeId := Some nodeId, isDrawingLine := True\<rparr>
      in case containerRect of
           None \<Rightarrow> ed1
         | Some c \<Rightarrow> ed1\<lparr>mousePos := \<lparr>x_pt = sub (x_pt client) (x_pt c),
                                       y_pt = sub (y_pt client) (y_pt c)\<rparr>\<rparr>)"

definition removeConnection ::
  "GeneratedAsset option \<Rightarrow> string \<Rightarrow> Editor \<Rightarrow> Editor \<times> GeneratedAsset list" where
  "removeConnection asset i ed =
     (ed\<lparr>connections_ed := filter (\<lambda>c. id_conn c \<noteq> i) (connections_ed ed)\<rparr>,
      saveState asset ed)"

text \<open>The card editor's \<^verbatim>\<open>Done\<close> button: \<^verbatim>\<open>setSelectedNodeId(null); saveState()\<close>\<close>

definition doneEditing :: "GeneratedAsset option \<Rightarrow> Editor \<Rightarrow> Editor \<times> GeneratedAsset list" where
  "doneEditing asset ed = (ed\<lparr>selectedNodeId := None\<rparr>, saveState asset ed)"

text \<open>
  One event of the editor, start to finish: the handler runs on the rendered state, the
  parent stores each asset it is handed (\<^verbatim>\<open>handleAssetUpdate\<close>), and, the prop being a
  new object whenever one was handed over, the effect then copies it into the editor.
\<close>

definition settle :: "App \<Rightarrow> Editor \<times> GeneratedAsset list \<Rightarrow> App \<times> Editor" where
  "settle s r =
     (case r of (ed', saved) \<Rightarrow>
        (let s' = fold handleAssetUpdate saved s
         in (s', if saved = [] then ed' else sync_effect (generatedAsset s') ed')))"

definition mouseUp :: "string \<Rightarrow> App \<times> Editor \<Rightarrow> App \<times> Editor" where
  "mouseUp now c = (case c of (s, ed) \<Rightarrow> settle s (handleContainerMouseUp (generatedAsset s) now ed))"



section \<open>Properties to be proved, and sample inputs\<close>

text \<open>
  The array the callback of \<^verbatim>\<open>refineNodes\<close> is mapped over,
  \<^verbatim>\<open>json.nodes || []\<close> for \<^verbatim>\<open>json = JSON.parse(response.text || "{}")\<close>.
\<close>

definition reply_elements :: "string option \<Rightarrow> parsed_nodes \<Rightarrow> (ReplyNode \<times> string \<times> string) list" where
  "reply_elements t parsed =
     (case (if truthy t then parsed else Parsed None) of
        Parsed (Some ns) \<Rightarrow> ns
      | _ \<Rightarrow> [])"

text \<open>The active reference is null or names a page of the list.\<close>

definition reference_valid :: "App \<Rightarrow> bool" where
  "reference_valid s =
     (case activeReferencePageId s of None \<Rightarrow> True | Some i \<Rightarrow> i \<in> id_page ` set (pages s))"

text \<open>The portion of a string after the first occurrence of a character.\<close>

definition after_first :: "char \<Rightarrow> string \<Rightarrow> string" where
  "after_first c s = drop (Suc (length (takeWhile (\<lambda>x. x \<noteq> c) s))) s"

text \<open>
  A base64 data URL: \<^verbatim>\<open>data:<mime>;base64,<payload>\<close>, the payload over the base64
  alphabet, the header up to the first comma.
\<close>

definition base64_char :: "char \<Rightarrow> bool" where
  "base64_char c =
     (c \<in> set ''ABCDEFGHIJKLMNOPQRSTUVWXYZabcdefghijklmnopqrstuvwxyz0123456789+/='')"

definition is_base64_data_url :: "string \<Rightarrow> bool" where
  "is_base64_data_url u =
     (CHR '','' \<in> set u \<and> prefix ''data:'' u
      \<and> suffix '';base64'' (takeWhile (\<lambda>x. x \<noteq> CHR '','') u)
      \<and> list_all base64_char (after_first CHR '','' u))"

text \<open>The strings the browser hands back for an upload (reader result, rendered pages).\<close>

definition rendered_urls :: "pdf_page list \<Rightarrow> string list" where
  "rendered_urls ps = concat (map (\<lambda>pg. case pg of Rendered u rid \<Rightarrow> [u] | _ \<Rightarrow> []) ps)"

definition data_urls :: "Upload \<Rightarrow> string list" where
  "data_urls up =
     (case read_up up of ReadOk u \<Rightarrow> [u] | ReadError \<Rightarrow> []) @
     (case pdf_up up of Loaded ps \<Rightarrow> rendered_urls ps | LoadThrows \<Rightarrow> [])"

text \<open>
  The second piece of a string split at commas: the text between its first comma and
  the next comma or the end; there is none when the string has no comma.
\<close>

definition second_piece :: "string \<Rightarrow> string option" where
  "second_piece u =
     (if CHR '','' \<in> set u
      then Some (takeWhile (\<lambda>x. x \<noteq> CHR '','') (after_first CHR '','' u))
      else None)"

text \<open>A picture, the page made from it, and the state after its summary has arrived.\<close>

definition photo :: Upload where
  "photo = \<lparr> file_up = \<lparr>name_file = ''a.png'', type_file = ''image/png''\<rparr>,
              read_up = ReadOk ''data:image/png;base64,AAAA'', rid_up = ''k3x9q'',
              pdf_up = LoadThrows \<rparr>"

definition photo_page :: DocumentPage where
  "photo_page = \<lparr> id_page = ''k3x9q'', url = ''data:image/png;base64,AAAA'',
                   file_page = \<lparr>name_file = ''a.png'', type_file = ''image/png''\<rparr>,
                   base64 = Some ''AAAA'', mimeType = ''image/png'' \<rparr>"

definition uploaded :: App where
  "uploaded = initial\<lparr>pages := [photo_page]\<rparr>"

definition first_summary :: App where
  "first_summary =
     initial\<lparr>pages := [photo_page],
       messages := [\<lparr>role = Model, text_msg = ''first'', isError = None, timestamp = 1\<rparr>],
       appState := READY, activeReferencePageId := Some ''k3x9q''\<rparr>"


text \<open>What the two loops add to their accumulators when nothing rejects.\<close>

definition pages_of_pdf :: "File \<Rightarrow> pdf_page list \<Rightarrow> DocumentPage list" where
  "pages_of_pdf f ps =
     concat (map (\<lambda>pg. case pg of Rendered u rid \<Rightarrow> [rendered_page f u rid] | _ \<Rightarrow> []) ps)"

definition pages_of_upload :: "Upload \<Rightarrow> DocumentPage list" where
  "pages_of_upload up =
     (if type_file (file_up up) = ''application/pdf''
      then (case pdf_up up of Loaded ps \<Rightarrow> pages_of_pdf (file_up up) ps | LoadThrows \<Rightarrow> [])
      else if prefix ''image/'' (type_file (file_up up))
      then (case read_up up of ReadOk u \<Rightarrow> [image_page (file_up up) u (rid_up up)] | ReadError \<Rightarrow> [])
      else [])"




text \<open>A PDF of one page whose canvas is serialised as \<^verbatim>\<open>data:,\<close> (a canvas without area).\<close>

definition blank :: Upload where
  "blank = \<lparr> file_up = \<lparr>name_file = ''b.pdf'', type_file = ''application/pdf''\<rparr>,
              read_up = ReadError, rid_up = [],
              pdf_up = Loaded [Rendered ''data:,'' ''p1''] \<rparr>"


text \<open>A generated asset with one card, and the editor while a link is drawn from the card.\<close>

definition card :: DiagramNode where
  "card = \<lparr> id_node = ''node-1699999990000-0'', title = ''Model'', content = ''core'',
             x_node = 50, y_node = 50 \<rparr>"

definition sketch :: GeneratedAsset where
  "sketch = \<lparr> svg = None, background = None, nodes = Some [card], connections = Some [] \<rparr>"

definition studio :: App where
  "studio = uploaded\<lparr>appState := IMAGE_GEN, activeReferencePageId := Some ''k3x9q'',
              generatedAsset := Some sketch\<rparr>"

definition drawing :: Editor where
  "drawing = initial_ed\<lparr>nodes_ed := [card], isDrawingLine := True,
               lineStartNodeId := Some ''node-1699999990000-0'', mousePos := \<lparr>x_pt = 300, y_pt = 200\<rparr>\<rparr>"

text \<open>The editor showing the card, before any gesture.\<close>

definition resting :: Editor where
  "resting = initial_ed\<lparr>nodes_ed := [card]\<rparr>"

definition link :: DiagramConnection where
  "link = \<lparr> id_conn = ''conn-1700000000000'', fromNodeId = ''node-1699999990000-0'', toX = 300, toY = 200 \<rparr>"


section \<open>Properties of the AI gateway\<close>


lemma truthy_simps [simp]:
  "truthy None = False" "truthy (Some []) = False" "truthy (Some (c # cs)) = True"
  by (simp_all add: truthy_def)

lemma or_else_simps [simp]:
  "or_else None d = d" "or_else (Some []) d = d" "or_else (Some (c # cs)) d = c # cs"
  by (simp_all add: or_else_def)

lemma or_else_truthy: "truthy t \<Longrightarrow> or_else t d = the t"
  by (cases t) (auto simp: truthy_def or_else_def)

lemma or_else_falsy: "\<not> truthy t \<Longrightarrow> or_else t d = d"
  by (cases t) (auto simp: truthy_def or_else_def)

text \<open>
  Claim C9. With the client initialised, \<^verbatim>\<open>analyzeForDiagram\<close> never rejects: whatever the
  request does, it returns a value. When the request throws, when the response has no
  text (missing or empty), or when the text does not parse, that value is the fallback
  record, whose five fields are the fixed placeholder strings; a text that parses is
  returned as parsed, so a reply that happens to parse to the placeholders gives the
  very value a failure gives.
\<close>

theorem analyzeForDiagram_total:
  "(\<exists>d. analyzeForDiagram True r parsed = Inr d)
   \<and> analyzeForDiagram True Throws parsed = Inr fallback
   \<and> analyzeForDiagram True (Response None) parsed = Inr fallback
   \<and> analyzeForDiagram True (Response (Some [])) parsed = Inr fallback
   \<and> analyzeForDiagram True (Response (Some (c # cs))) None = Inr fallback
   \<and> analyzeForDiagram True (Response (Some (c # cs))) (Some d') = Inr d'
   \<and> analyzeForDiagram True (Response (Some (c # cs))) (Some fallback) = analyzeForDiagram True Throws parsed
   \<and> model_core fallback = ''Could not extract Model info''
   \<and> nervous_system fallback = ''Could not extract System info''
   \<and> human_collaboration fallback = ''Could not extract Human info''
   \<and> tools_rag fallback = ''Could not extract Tools info''
   \<and> deployment fallback = ''Could not extract Deployment info''"
  by (simp add: analyzeForDiagram_def fallback_def split: response.split option.split)

lemma merge_node_id:
  "id_node (merge_node cur (n, now, rnd)) = or_else (id_reply n) (generated_id now rnd)"
  by (simp add: merge_node_def Let_def)

lemma merge_node_found:
  "find (\<lambda>cn. Some (id_node cn) = id_reply n) cur = Some cn \<Longrightarrow>
   x_node (merge_node cur (n, now, rnd)) = x_node cn \<and> y_node (merge_node cur (n, now, rnd)) = y_node cn"
  by (simp add: merge_node_def Let_def)

lemma merge_node_default:
  "find (\<lambda>cn. Some (id_node cn) = id_reply n) cur = None \<Longrightarrow>
   x_node (merge_node cur (n, now, rnd)) = 50 \<and> y_node (merge_node cur (n, now, rnd)) = 50"
  by (simp add: merge_node_def Let_def)

lemma find_distinct_id:
  "distinct (map id_node cur) \<Longrightarrow> cn \<in> set cur \<Longrightarrow>
   find (\<lambda>c. Some (id_node c) = Some (id_node cn)) cur = Some cn"
  by (induction cur) (auto simp: image_iff)

lemma find_none_id:
  "i \<notin> id_node ` set cur \<Longrightarrow> find (\<lambda>c. Some (id_node c) = Some i) cur = None"
  by (induction cur) auto


lemma merge_node_position:
  "case find (\<lambda>cn. Some (id_node cn) = id_reply n) cur of
     Some cn \<Rightarrow> x_node (merge_node cur (n, now, rnd)) = x_node cn \<and> y_node (merge_node cur (n, now, rnd)) = y_node cn
   | None \<Rightarrow> x_node (merge_node cur (n, now, rnd)) = 50 \<and> y_node (merge_node cur (n, now, rnd)) = 50"
  by (simp add: merge_node_def Let_def split: option.split)

lemma merge_node_claim:
  assumes d: "distinct (map id_node cur)" and e: "[] \<notin> id_node ` set cur"
    and f: "\<not> truthy (id_reply n) \<longrightarrow> generated_id now rnd \<notin> id_node ` set cur"
  shows "(\<forall>cn\<in>set cur. id_node (merge_node cur (n, now, rnd)) = id_node cn \<longrightarrow>
            x_node (merge_node cur (n, now, rnd)) = x_node cn \<and> y_node (merge_node cur (n, now, rnd)) = y_node cn)
       \<and> (id_node (merge_node cur (n, now, rnd)) \<notin> id_node ` set cur \<longrightarrow>
            x_node (merge_node cur (n, now, rnd)) = 50 \<and> y_node (merge_node cur (n, now, rnd)) = 50)"
proof (cases "truthy (id_reply n)")
  case True
  then obtain i where i: "id_reply n = Some i" "i \<noteq> []"
    by (cases "id_reply n") (auto simp: truthy_def)
  have idm: "id_node (merge_node cur (n, now, rnd)) = i"
    using i by (simp add: merge_node_id or_else_def)
  show ?thesis
  proof (intro conjI ballI impI)
    fix cn assume "cn \<in> set cur" "id_node (merge_node cur (n, now, rnd)) = id_node cn"
    then have "find (\<lambda>c. Some (id_node c) = id_reply n) cur = Some cn"
      using find_distinct_id [OF d, of cn] i idm by simp
    then show "x_node (merge_node cur (n, now, rnd)) = x_node cn"
      and "y_node (merge_node cur (n, now, rnd)) = y_node cn"
      using merge_node_found by blast+
  next
    assume "id_node (merge_node cur (n, now, rnd)) \<notin> id_node ` set cur"
    then have "find (\<lambda>c. Some (id_node c) = id_reply n) cur = None"
      using find_none_id [of i cur] i idm by simp
    then show "x_node (merge_node cur (n, now, rnd)) = 50"
      and "y_node (merge_node cur (n, now, rnd)) = 50"
      using merge_node_default by blast+
  qed
next
  case False
  have idm: "id_node (merge_node cur (n, now, rnd)) = generated_id now rnd"
    using False by (simp add: merge_node_id or_else_falsy)
  have fresh: "generated_id now rnd \<notin> id_node ` set cur"
    using f False by simp
  have "find (\<lambda>c. Some (id_node c) = id_reply n) cur = None"
  proof (cases "id_reply n")
    case None
    then show ?thesis by (simp add: find_None_iff)
  next
    case (Some i)
    with False have "i = []" by (simp add: truthy_def)
    with Some e show ?thesis using find_none_id [of "[]" cur] by simp
  qed
  then have "x_node (merge_node cur (n, now, rnd)) = 50 \<and> y_node (merge_node cur (n, now, rnd)) = 50"
    by (rule merge_node_default)
  with idm fresh show ?thesis by auto
qed

lemma refineNodes_eq:
  "refineNodes ai cur r parsed =
     (if \<not> ai then Inl NotInitialized
      else case r of
        Throws \<Rightarrow> Inl RequestFailed
      | Response t \<Rightarrow>
          if truthy t \<and> parsed = ParseThrows then Inl JsonFailed
          else Inr (map (merge_node cur) (reply_elements t parsed)))"
  by (auto simp: refineNodes_def reply_elements_def
           split: response.splits parsed_nodes.splits option.splits)

text \<open>
  Claim C1, amended. \<^verbatim>\<open>refineNodes\<close> rejects when the client is missing, when the
  request throws and when the reply does not parse; in every other case it returns
  exactly one node per element of the reply's \<^verbatim>\<open>nodes\<close>, in order (none when the reply
  has no text or no \<^verbatim>\<open>nodes\<close>). The node made from element \<open>n\<close> has the title and
  content of \<open>n\<close>, the identifier of \<open>n\<close> when that is a non-empty string and a generated
  one otherwise; its position is that of the first node of \<open>currentNodes\<close> whose
  identifier is the one \<open>n\<close> carries, and \<open>(50, 50)\<close> when there is none. So the merge
  is keyed by the identifier the reply gives, not by the identifier the returned node
  ends up with. The two agree, and the claim as first stated holds, when the
  identifiers of \<open>currentNodes\<close> are distinct and non-empty and no generated identifier
  is already in use.
\<close>

theorem refineNodes_merge:
  "refineNodes ai cur r parsed =
     (if \<not> ai then Inl NotInitialized
      else case r of
        Throws \<Rightarrow> Inl RequestFailed
      | Response t \<Rightarrow>
          if truthy t \<and> parsed = ParseThrows then Inl JsonFailed
          else Inr (map (merge_node cur) (reply_elements t parsed)))
   \<and> (\<forall>out. refineNodes ai cur r parsed = Inr out \<longrightarrow>
        (\<exists>t. r = Response t \<and> length out = length (reply_elements t parsed) \<and>
           (\<forall>k<length out. case reply_elements t parsed ! k of (n, now, rnd) \<Rightarrow>
               id_node (out ! k) = or_else (id_reply n) (generated_id now rnd) \<and>
               title (out ! k) = title_reply n \<and> content (out ! k) = content_reply n \<and>
               (case find (\<lambda>cn. Some (id_node cn) = id_reply n) cur of
                  Some cn \<Rightarrow> x_node (out ! k) = x_node cn \<and> y_node (out ! k) = y_node cn
                | None \<Rightarrow> x_node (out ! k) = 50 \<and> y_node (out ! k) = 50)) \<and>
           (distinct (map id_node cur) \<and> [] \<notin> id_node ` set cur \<and>
            (\<forall>(n, now, rnd)\<in>set (reply_elements t parsed).
                \<not> truthy (id_reply n) \<longrightarrow> generated_id now rnd \<notin> id_node ` set cur) \<longrightarrow>
              (\<forall>m\<in>set out.
                 (\<forall>cn\<in>set cur. id_node m = id_node cn \<longrightarrow>
                    x_node m = x_node cn \<and> y_node m = y_node cn) \<and>
                 (id_node m \<notin> id_node ` set cur \<longrightarrow> x_node m = 50 \<and> y_node m = 50)))))"
proof (intro conjI allI impI)
  show "refineNodes ai cur r parsed =
     (if \<not> ai then Inl NotInitialized
      else case r of
        Throws \<Rightarrow> Inl RequestFailed
      | Response t \<Rightarrow>
          if truthy t \<and> parsed = ParseThrows then Inl JsonFailed
          else Inr (map (merge_node cur) (reply_elements t parsed)))"
    by (rule refineNodes_eq)
next
  fix out
  assume ok: "refineNodes ai cur r parsed = Inr out"
  then obtain t where r: "r = Response t"
    and out: "out = map (merge_node cur) (reply_elements t parsed)"
    unfolding refineNodes_eq by (cases r) (auto split: if_splits)
  let ?ns = "reply_elements t parsed"
  have A: "\<forall>k<length out. case ?ns ! k of (n, now, rnd) \<Rightarrow>
               id_node (out ! k) = or_else (id_reply n) (generated_id now rnd) \<and>
               title (out ! k) = title_reply n \<and> content (out ! k) = content_reply n \<and>
               (case find (\<lambda>cn. Some (id_node cn) = id_reply n) cur of
                  Some cn \<Rightarrow> x_node (out ! k) = x_node cn \<and> y_node (out ! k) = y_node cn
                | None \<Rightarrow> x_node (out ! k) = 50 \<and> y_node (out ! k) = 50)"
  proof (intro allI impI)
    fix k assume k: "k < length out"
    obtain n now rnd where e: "?ns ! k = (n, now, rnd)" by (cases "?ns ! k") auto
    have ok: "out ! k = merge_node cur (n, now, rnd)" using k e by (simp add: out)
    have tc: "title (merge_node cur (n, now, rnd)) = title_reply n"
      "content (merge_node cur (n, now, rnd)) = content_reply n"
      by (simp_all add: merge_node_def Let_def)
    show "case ?ns ! k of (n, now, rnd) \<Rightarrow>
               id_node (out ! k) = or_else (id_reply n) (generated_id now rnd) \<and>
               title (out ! k) = title_reply n \<and> content (out ! k) = content_reply n \<and>
               (case find (\<lambda>cn. Some (id_node cn) = id_reply n) cur of
                  Some cn \<Rightarrow> x_node (out ! k) = x_node cn \<and> y_node (out ! k) = y_node cn
                | None \<Rightarrow> x_node (out ! k) = 50 \<and> y_node (out ! k) = 50)"
      unfolding e ok prod.case merge_node_id tc
      using merge_node_position [where n=n and cur=cur and now=now and rnd=rnd] by simp
  qed
  have B: "distinct (map id_node cur) \<and> [] \<notin> id_node ` set cur \<and>
            (\<forall>(n, now, rnd)\<in>set ?ns.
                \<not> truthy (id_reply n) \<longrightarrow> generated_id now rnd \<notin> id_node ` set cur) \<longrightarrow>
              (\<forall>m\<in>set out.
                 (\<forall>cn\<in>set cur. id_node m = id_node cn \<longrightarrow>
                    x_node m = x_node cn \<and> y_node m = y_node cn) \<and>
                 (id_node m \<notin> id_node ` set cur \<longrightarrow> x_node m = 50 \<and> y_node m = 50))"
  proof (intro impI ballI)
    fix m
    assume h: "distinct (map id_node cur) \<and> [] \<notin> id_node ` set cur \<and>
            (\<forall>(n, now, rnd)\<in>set ?ns.
                \<not> truthy (id_reply n) \<longrightarrow> generated_id now rnd \<notin> id_node ` set cur)"
      and m: "m \<in> set out"
    from m out obtain n now rnd where e: "(n, now, rnd) \<in> set ?ns" "m = merge_node cur (n, now, rnd)"
      by auto
    from h e(1) have f: "\<not> truthy (id_reply n) \<longrightarrow> generated_id now rnd \<notin> id_node ` set cur"
      by blast
    show "(\<forall>cn\<in>set cur. id_node m = id_node cn \<longrightarrow> x_node m = x_node cn \<and> y_node m = y_node cn) \<and>
             (id_node m \<notin> id_node ` set cur \<longrightarrow> x_node m = 50 \<and> y_node m = 50)"
      unfolding e(2) using merge_node_claim [where n=n and cur=cur and now=now and rnd=rnd] h f by blast
  qed
  have L: "length out = length ?ns" by (simp add: out)
  from r L A B
  show "\<exists>t. r = Response t \<and> length out = length (reply_elements t parsed) \<and>
           (\<forall>k<length out. case reply_elements t parsed ! k of (n, now, rnd) \<Rightarrow>
               id_node (out ! k) = or_else (id_reply n) (generated_id now rnd) \<and>
               title (out ! k) = title_reply n \<and> content (out ! k) = content_reply n \<and>
               (case find (\<lambda>cn. Some (id_node cn) = id_reply n) cur of
                  Some cn \<Rightarrow> x_node (out ! k) = x_node cn \<and> y_node (out ! k) = y_node cn
                | None \<Rightarrow> x_node (out ! k) = 50 \<and> y_node (out ! k) = 50)) \<and>
           (distinct (map id_node cur) \<and> [] \<notin> id_node ` set cur \<and>
            (\<forall>(n, now, rnd)\<in>set (reply_elements t parsed).
                \<not> truthy (id_reply n) \<longrightarrow> generated_id now rnd \<notin> id_node ` set cur) \<longrightarrow>
              (\<forall>m\<in>set out.
                 (\<forall>cn\<in>set cur. id_node m = id_node cn \<longrightarrow>
                    x_node m = x_node cn \<and> y_node m = y_node cn) \<and>
                 (id_node m \<notin> id_node ` set cur \<longrightarrow> x_node m = 50 \<and> y_node m = 50)))"
    by blast
qed

theorem refineNodes_merge_witness:
  "refineNodes True
     [\<lparr>id_node = ''a'', title = ''A'', content = ''old'', x_node = 7, y_node = 9\<rparr>]
     (Response (Some ''{...}''))
     (Parsed (Some [(\<lparr>id_reply = Some ''a'', title_reply = ''A'', content_reply = ''new''\<rparr>, ''1700000000000'', ''0.5''),
                    (\<lparr>id_reply = None, title_reply = ''B'', content_reply = ''b''\<rparr>, ''1700000000000'', ''0.25'')]))
   = Inr [\<lparr>id_node = ''a'', title = ''A'', content = ''new'', x_node = 7, y_node = 9\<rparr>,
          \<lparr>id_node = ''node-1700000000000-0.25'', title = ''B'', content = ''b'', x_node = 50, y_node = 50\<rparr>]
   \<and> length (reply_elements (Some ''{...}'')
       (Parsed (Some [(\<lparr>id_reply = Some ''a'', title_reply = ''A'', content_reply = ''new''\<rparr>, ''1700000000000'', ''0.5''),
                    (\<lparr>id_reply = None, title_reply = ''B'', content_reply = ''b''\<rparr>, ''1700000000000'', ''0.25'')]))) = 2
   \<and> distinct (map id_node [\<lparr>id_node = ''a'', title = ''A'', content = ''old'', x_node = 7, y_node = 9\<rparr>])
   \<and> [] \<notin> id_node ` set [\<lparr>id_node = ''a'', title = ''A'', content = ''old'', x_node = 7, y_node = 9\<rparr>]
   \<and> generated_id ''1700000000000'' ''0.25'' \<notin>
        id_node ` set [\<lparr>id_node = ''a'', title = ''A'', content = ''old'', x_node = 7, y_node = 9\<rparr>]
   \<and> list_all (\<lambda>m. if id_node m = ''a'' then x_node m = 7 \<and> y_node m = 9
                     else x_node m = 50 \<and> y_node m = 50)
        [\<lparr>id_node = ''a'', title = ''A'', content = ''new'', x_node = 7, y_node = 9\<rparr>,
         \<lparr>id_node = ''node-1700000000000-0.25'', title = ''B'', content = ''b'', x_node = 50, y_node = 50\<rparr>]"
proof -
  let ?cur = "[\<lparr>id_node = ''a'', title = ''A'', content = ''old'', x_node = 7, y_node = 9\<rparr>]"
  let ?ns = "[(\<lparr>id_reply = Some ''a'', title_reply = ''A'', content_reply = ''new''\<rparr>, ''1700000000000'', ''0.5''),
                    (\<lparr>id_reply = None, title_reply = ''B'', content_reply = ''b''\<rparr>, ''1700000000000'', ''0.25'')]"
  let ?out = "[\<lparr>id_node = ''a'', title = ''A'', content = ''new'', x_node = 7, y_node = 9\<rparr>,
          \<lparr>id_node = ''node-1700000000000-0.25'', title = ''B'', content = ''b'', x_node = 50, y_node = 50\<rparr>]"
  note th = refineNodes_merge [of True ?cur "Response (Some ''{...}'')" "Parsed (Some ?ns)"]
  have e: "reply_elements (Some ''{...}'') (Parsed (Some ?ns)) = ?ns"
    by (simp add: reply_elements_def)
  have q: "refineNodes True ?cur (Response (Some ''{...}'')) (Parsed (Some ?ns)) = Inr ?out"
    using th [THEN conjunct1] e by (simp add: merge_node_def generated_id_def)
  have h: "distinct (map id_node ?cur) \<and> [] \<notin> id_node ` set ?cur
           \<and> generated_id ''1700000000000'' ''0.25'' \<notin> id_node ` set ?cur"
    by (simp add: generated_id_def)
  from th [THEN conjunct2, rule_format, OF q]
  obtain t where P: "Response (Some ''{...}'') = Response t \<and> length ?out = length (reply_elements t (Parsed (Some ?ns))) \<and>
           (\<forall>k<length ?out. case reply_elements t (Parsed (Some ?ns)) ! k of (n, now, rnd) \<Rightarrow>
               id_node (?out ! k) = or_else (id_reply n) (generated_id now rnd) \<and>
               title (?out ! k) = title_reply n \<and> content (?out ! k) = content_reply n \<and>
               (case find (\<lambda>cn. Some (id_node cn) = id_reply n) ?cur of
                  Some cn \<Rightarrow> x_node (?out ! k) = x_node cn \<and> y_node (?out ! k) = y_node cn
                | None \<Rightarrow> x_node (?out ! k) = 50 \<and> y_node (?out ! k) = 50)) \<and>
           (distinct (map id_node ?cur) \<and> [] \<notin> id_node ` set ?cur \<and>
            (\<forall>(n, now, rnd)\<in>set (reply_elements t (Parsed (Some ?ns))).
                \<not> truthy (id_reply n) \<longrightarrow> generated_id now rnd \<notin> id_node ` set ?cur) \<longrightarrow>
              (\<forall>m\<in>set ?out.
                 (\<forall>cn\<in>set ?cur. id_node m = id_node cn \<longrightarrow>
                    x_node m = x_node cn \<and> y_node m = y_node cn) \<and>
                 (id_node m \<notin> id_node ` set ?cur \<longrightarrow> x_node m = 50 \<and> y_node m = 50)))" ..
  note t = P [THEN conjunct1]
  note c = P [THEN conjunct2, THEN conjunct2, THEN conjunct2]
  from t have t': "t = Some ''{...}''" by simp
  have p: "\<forall>m\<in>set ?out.
                 (\<forall>cn\<in>set ?cur. id_node m = id_node cn \<longrightarrow>
                    x_node m = x_node cn \<and> y_node m = y_node cn) \<and>
                 (id_node m \<notin> id_node ` set ?cur \<longrightarrow> x_node m = 50 \<and> y_node m = 50)"
    using c h e unfolding t' by (simp add: generated_id_def)
  have r: "list_all (\<lambda>m. if id_node m = ''a'' then x_node m = 7 \<and> y_node m = 9
                     else x_node m = 50 \<and> y_node m = 50) ?out"
    using p by simp
  from q e h r show ?thesis by simp
qed

text \<open>
  Claim C1 as stated fails: the current node has the empty identifier and the reply
  names it. The lookup finds the node and keeps its position \<open>(7, 9)\<close>, but the empty
  identifier is falsy, so the returned node gets a generated identifier, one that no
  current node has, and still is not at \<open>(50, 50)\<close>. It fails the other way round
  too, on identifiers a caller can have: the current node carries an identifier that
  an earlier reply chose, the new reply gives its element none, and the identifier
  generated for it (clock \<open>1700000000000\<close>, random \<open>0.5\<close>) is that very one. The
  returned node then has the identifier of the current node and is at \<open>(50, 50)\<close>,
  not at \<open>(7, 9)\<close>.
\<close>

theorem refineNodes_counterexample:
  "refineNodes True
     [\<lparr>id_node = '''', title = ''A'', content = ''a'', x_node = 7, y_node = 9\<rparr>]
     (Response (Some ''{...}''))
     (Parsed (Some [(\<lparr>id_reply = Some '''', title_reply = ''B'', content_reply = ''b''\<rparr>, ''1700000000000'', ''0.5'')]))
   = Inr [\<lparr>id_node = ''node-1700000000000-0.5'', title = ''B'', content = ''b'', x_node = 7, y_node = 9\<rparr>]
   \<and> ''node-1700000000000-0.5'' \<notin> id_node ` set [\<lparr>id_node = '''', title = ''A'', content = ''a'', x_node = 7, y_node = 9\<rparr>]
   \<and> (7::number) \<noteq> 50
   \<and> refineNodes True
     [\<lparr>id_node = ''node-1700000000000-0.5'', title = ''A'', content = ''a'', x_node = 7, y_node = 9\<rparr>]
     (Response (Some ''{...}''))
     (Parsed (Some [(\<lparr>id_reply = None, title_reply = ''B'', content_reply = ''b''\<rparr>, ''1700000000000'', ''0.5'')]))
   = Inr [\<lparr>id_node = ''node-1700000000000-0.5'', title = ''B'', content = ''b'', x_node = 50, y_node = 50\<rparr>]
   \<and> ''node-1700000000000-0.5'' \<in> id_node ` set [\<lparr>id_node = ''node-1700000000000-0.5'', title = ''A'', content = ''a'', x_node = 7, y_node = 9\<rparr>]"
  by (simp add: refineNodes_def merge_node_def generated_id_def)

section \<open>Properties of the application state\<close>

lemmas handler_defs =
  processFiles_call_def processFiles_done_def handleFilesSelected_done_def
  handleSketchUpload_done_def handleRemovePage_def startAnalysis_call_def
  startAnalysis_done_def handleSendMessage_call_def handleSendMessage_done_def
  handleDownloadChat_def handleGenerateDiagram_call_def handleGenerateDiagram_done_def
  handleGenerateWorkflow_call_def handleGenerateWorkflow_done_def handleExtractText_call_def
  handleExtractText_done_def handleImageGeneration_call_def handleImageGeneration_done_def
  handleImageRefinement_call_def refineNodes_done_def refineBackground_done_def
  handleAssetUpdate_def handleResetImage_def toggleImageMode_def selectReference_def
  closeDiagram_def closeWorkflow_def closeExtractedText_def

lemmas step_defs = guard_def resume_def suspend_def

lemmas sample_defs = photo_def photo_page_def uploaded_def first_summary_def initial_def

lemmas view_defs = main_view_def busy_def accepted_def referencePage_def

lemmas page_defs = image_page_def rendered_page_def element_def split_on_def

text \<open>
  Claim C8. Whatever else happens, \<^verbatim>\<open>handleSendMessage\<close> appends the user's message
  when it is called and one model message when the call to the service settles. Run on
  its own it leaves the transcript longer by exactly these two, the second carrying the
  error flag \<open>true\<close> if \<^verbatim>\<open>sendMessage\<close> threw (no chat session, or a failed request) and
  no flag if it returned; the processing flag is false afterwards in both cases.
\<close>

theorem handleSendMessage_appends_two:
  "messages (handleSendMessage txt now (Inl e) now' s) =
     messages s @ [\<lparr>role = User, text_msg = txt, isError = None, timestamp = now\<rparr>,
                   \<lparr>role = Model,
                    text_msg = ''I encountered an error trying to respond. Please try again.'',
                    isError = Some True, timestamp = now'\<rparr>]
   \<and> \<not> isProcessing (handleSendMessage txt now (Inl e) now' s)
   \<and> messages (handleSendMessage txt now (Inr responseText) now' s) =
     messages s @ [\<lparr>role = User, text_msg = txt, isError = None, timestamp = now\<rparr>,
                   \<lparr>role = Model, text_msg = responseText, isError = None, timestamp = now'\<rparr>]
   \<and> \<not> isProcessing (handleSendMessage txt now (Inr responseText) now' s)
   \<and> messages (fst (handleSendMessage_call txt now s)) =
     messages s @ [\<lparr>role = User, text_msg = txt, isError = None, timestamp = now\<rparr>]
   \<and> messages (handleSendMessage_done (Inl e) now' s) =
     messages s @ [\<lparr>role = Model,
                    text_msg = ''I encountered an error trying to respond. Please try again.'',
                    isError = Some True, timestamp = now'\<rparr>]
   \<and> messages (handleSendMessage_done (Inr responseText) now' s) =
     messages s @ [\<lparr>role = Model, text_msg = responseText, isError = None, timestamp = now'\<rparr>]
   \<and> \<not> isProcessing (handleSendMessage_done res now' s)
   \<and> sendMessage False r = Inl ChatNotStarted
   \<and> sendMessage True Throws = Inl RequestFailed
   \<and> sendMessage True (Response t) = Inr (or_else t ''I couldn't generate a response.'')"
  by (simp add: handleSendMessage_def handleSendMessage_call_def handleSendMessage_done_def
      sendMessage_def split: sum.split)

lemma step_messages:
  assumes "step e (s, w) = Some (s', w')"
  shows "messages s' = messages s
       \<or> (\<exists>txt now. e = SendMessage txt now \<and>
             messages s' = messages s @ [\<lparr>role = User, text_msg = txt, isError = None, timestamp = now\<rparr>])
       \<or> (\<exists>res now m. e = SendDone res now \<and> role m = Model \<and> timestamp m = now \<and>
             messages s' = messages s @ [m])
       \<or> (\<exists>txt now. e = AnalysisDone (Inr txt) now \<and>
             messages s' = [\<lparr>role = Model, text_msg = txt, isError = None, timestamp = now\<rparr>])"
  using assms
  by (cases e)
     (auto simp: step_defs handler_defs Let_def
           split: if_splits sum.splits option.splits prod.splits list.splits target.splits)

text \<open>
  Claim C2, amended. One step of the application leaves the transcript as it is, or
  appends one message to it (the user's, when \<^verbatim>\<open>handleSendMessage\<close> is called; the
  model's, when its request settles), or, when \<^verbatim>\<open>startAnalysis\<close> succeeds, replaces the
  whole transcript by the one summary message. So every step extends the transcript
  except a successful analysis that finds it non-empty.
\<close>

theorem transcript_steps:
  assumes "step e (s, w) = Some (s', w')"
  shows "(messages s' = messages s
          \<or> (\<exists>txt now. e = SendMessage txt now \<and>
                messages s' = messages s @ [\<lparr>role = User, text_msg = txt, isError = None, timestamp = now\<rparr>])
          \<or> (\<exists>res now m. e = SendDone res now \<and> role m = Model \<and> timestamp m = now \<and>
                messages s' = messages s @ [m])
          \<or> (\<exists>txt now. e = AnalysisDone (Inr txt) now \<and>
                messages s' = [\<lparr>role = Model, text_msg = txt, isError = None, timestamp = now\<rparr>]))
       \<and> (messages s = [] \<or> (\<forall>txt now. e \<noteq> AnalysisDone (Inr txt) now) \<longrightarrow>
            prefix (messages s) (messages s'))"
proof
  show "messages s' = messages s
          \<or> (\<exists>txt now. e = SendMessage txt now \<and>
                messages s' = messages s @ [\<lparr>role = User, text_msg = txt, isError = None, timestamp = now\<rparr>])
          \<or> (\<exists>res now m. e = SendDone res now \<and> role m = Model \<and> timestamp m = now \<and>
                messages s' = messages s @ [m])
          \<or> (\<exists>txt now. e = AnalysisDone (Inr txt) now \<and>
                messages s' = [\<lparr>role = Model, text_msg = txt, isError = None, timestamp = now\<rparr>])"
    by (rule step_messages [OF assms])
  show "messages s = [] \<or> (\<forall>txt now. e \<noteq> AnalysisDone (Inr txt) now) \<longrightarrow>
            prefix (messages s) (messages s')"
    using step_messages [OF assms] by auto
qed

lemma run_photo:
  "run [FilesSelected [photo], FilesDone [photo] False, StartAnalysis, CreativeButton, ChatButton,
        StartAnalysis, AnalysisDone (Inr ''first'') 1] (initial, [])
   = Some (first_summary, [AwaitAnalysis])"
  by (simp add: step_defs handler_defs sample_defs view_defs page_defs truthy_def)

theorem transcript_steps_witness:
  "step (SendMessage ''hi'' 3) (first_summary, [AwaitAnalysis]) =
     Some (first_summary\<lparr>messages := messages first_summary @
                [\<lparr>role = User, text_msg = ''hi'', isError = None, timestamp = 3\<rparr>],
              isProcessing := True\<rparr>, [AwaitAnalysis, AwaitSend])
   \<and> prefix (messages first_summary)
        (messages (first_summary\<lparr>messages := messages first_summary @
                [\<lparr>role = User, text_msg = ''hi'', isError = None, timestamp = 3\<rparr>],
              isProcessing := True\<rparr>))"
proof -
  have h: "step (SendMessage ''hi'' 3) (first_summary, [AwaitAnalysis]) =
     Some (first_summary\<lparr>messages := messages first_summary @
                [\<lparr>role = User, text_msg = ''hi'', isError = None, timestamp = 3\<rparr>],
              isProcessing := True\<rparr>, [AwaitAnalysis, AwaitSend])"
    by (simp add: step_defs handleSendMessage_call_def sample_defs view_defs)
  from transcript_steps [OF h] h show ?thesis by simp
qed

text \<open>
  Claim C2 as stated fails. A page is uploaded and the analysis is started; while it
  runs, the user switches to the creative studio and back, which shows the staging
  area again (the transcript is still empty), and starts a second analysis. The first
  summary arrives and is the transcript; when the second arrives it takes its place.
\<close>

theorem transcript_replaced:
  "run [FilesSelected [photo], FilesDone [photo] False, StartAnalysis, CreativeButton, ChatButton,
        StartAnalysis, AnalysisDone (Inr ''first'') 1] (initial, [])
     = Some (first_summary, [AwaitAnalysis])
   \<and> step (AnalysisDone (Inr ''second'') 2) (first_summary, [AwaitAnalysis])
     = Some (first_summary\<lparr>messages :=
               [\<lparr>role = Model, text_msg = ''second'', isError = None, timestamp = 2\<rparr>]\<rparr>, [])
   \<and> messages first_summary = [\<lparr>role = Model, text_msg = ''first'', isError = None, timestamp = 1\<rparr>]
   \<and> \<not> prefix (messages first_summary)
          [\<lparr>role = Model, text_msg = ''second'', isError = None, timestamp = 2\<rparr>]"
proof (intro conjI)
  show "run [FilesSelected [photo], FilesDone [photo] False, StartAnalysis, CreativeButton,
             ChatButton, StartAnalysis, AnalysisDone (Inr ''first'') 1] (initial, [])
        = Some (first_summary, [AwaitAnalysis])"
    by (rule run_photo)
  show "step (AnalysisDone (Inr ''second'') 2) (first_summary, [AwaitAnalysis])
     = Some (first_summary\<lparr>messages :=
               [\<lparr>role = Model, text_msg = ''second'', isError = None, timestamp = 2\<rparr>]\<rparr>, [])"
    by (simp add: step_defs startAnalysis_done_def sample_defs)
  show "messages first_summary = [\<lparr>role = Model, text_msg = ''first'', isError = None, timestamp = 1\<rparr>]"
    by (simp add: first_summary_def)
  then show "\<not> prefix (messages first_summary)
          [\<lparr>role = Model, text_msg = ''second'', isError = None, timestamp = 2\<rparr>]"
    by simp
qed

lemma step_pages:
  assumes "step e (s, w) = Some (s', w')"
  shows "(\<forall>i. e = RemovePage i \<longrightarrow> pages s' = filter (\<lambda>p. id_page p \<noteq> i) (pages s))
       \<and> (\<forall>files sketch. e = FilesDone files sketch \<longrightarrow>
             pages s' = pages s @ (case processFiles_loop files [] of Inr newPages \<Rightarrow> newPages | Inl x \<Rightarrow> []))
       \<and> ((\<forall>i. e \<noteq> RemovePage i) \<and> (\<forall>files sketch. e \<noteq> FilesDone files sketch) \<longrightarrow>
             pages s' = pages s)"
  using assms
  by (cases e)
     (auto simp: step_defs handler_defs Let_def
           split: if_splits sum.splits option.splits prod.splits list.splits target.splits)

text \<open>
  Claim C5. In one step of the application the page list stays as it is, or loses
  exactly the pages with the identifier handed to \<^verbatim>\<open>handleRemovePage\<close>, or gets the
  pages of a finished \<^verbatim>\<open>processFiles\<close> appended. A page of the list is a value, so a
  page that is still there has every field as before; a page that is gone was removed
  by \<^verbatim>\<open>handleRemovePage\<close> with its identifier.
\<close>

theorem pages_immutable:
  assumes "step e (s, w) = Some (s', w')"
  shows "(\<forall>p\<in>set (pages s). p \<in> set (pages s') \<or> e = RemovePage (id_page p))
       \<and> (\<forall>i. e = RemovePage i \<longrightarrow> pages s' = filter (\<lambda>p. id_page p \<noteq> i) (pages s))
       \<and> (\<forall>files sketch. e = FilesDone files sketch \<longrightarrow>
             pages s' = pages s @ (case processFiles_loop files [] of Inr newPages \<Rightarrow> newPages | Inl x \<Rightarrow> []))
       \<and> ((\<forall>i. e \<noteq> RemovePage i) \<longrightarrow> prefix (pages s) (pages s'))
       \<and> ((\<forall>i. e \<noteq> RemovePage i) \<and> (\<forall>files sketch. e \<noteq> FilesDone files sketch) \<longrightarrow>
             pages s' = pages s)"
proof -
  note p = step_pages [OF assms]
  have rm: "\<forall>i. e = RemovePage i \<longrightarrow> pages s' = filter (\<lambda>p. id_page p \<noteq> i) (pages s)"
    using p by blast
  have fd: "\<forall>files sketch. e = FilesDone files sketch \<longrightarrow>
             pages s' = pages s @ (case processFiles_loop files [] of Inr newPages \<Rightarrow> newPages | Inl x \<Rightarrow> [])"
    using p by blast
  have other: "(\<forall>i. e \<noteq> RemovePage i) \<and> (\<forall>files sketch. e \<noteq> FilesDone files sketch) \<longrightarrow>
             pages s' = pages s"
    using p by blast
  have pre: "(\<forall>i. e \<noteq> RemovePage i) \<longrightarrow> prefix (pages s) (pages s')"
  proof (cases "\<exists>files sketch. e = FilesDone files sketch")
    case True
    with fd show ?thesis by auto
  next
    case False
    with other show ?thesis by auto
  qed
  have keep: "\<forall>p\<in>set (pages s). p \<in> set (pages s') \<or> e = RemovePage (id_page p)"
  proof
    fix q assume q: "q \<in> set (pages s)"
    show "q \<in> set (pages s') \<or> e = RemovePage (id_page q)"
    proof (cases "\<exists>i. e = RemovePage i")
      case True
      then obtain i where i: "e = RemovePage i" by blast
      with rm have "pages s' = filter (\<lambda>p. id_page p \<noteq> i) (pages s)" by blast
      with q i show ?thesis by auto
    next
      case False
      with pre have "prefix (pages s) (pages s')" by blast
      with q show ?thesis by (auto simp: prefix_def)
    qed
  qed
  from keep rm fd pre other show ?thesis by blast
qed

theorem pages_immutable_witness:
  "step (RemovePage ''k3x9q'') (uploaded, []) = Some (initial, [])
   \<and> step (FilesDone [photo] False) (initial\<lparr>isConvertingPdf := True\<rparr>, [AwaitFiles [photo] False])
       = Some (uploaded, [])
   \<and> pages initial = filter (\<lambda>p. id_page p \<noteq> ''k3x9q'') (pages uploaded)
   \<and> prefix (pages (initial\<lparr>isConvertingPdf := True\<rparr>)) (pages uploaded)"
proof -
  have r: "step (RemovePage ''k3x9q'') (uploaded, []) = Some (initial, [])"
    by (simp add: step_defs handleRemovePage_def sample_defs view_defs)
  have f: "step (FilesDone [photo] False) (initial\<lparr>isConvertingPdf := True\<rparr>, [AwaitFiles [photo] False])
       = Some (uploaded, [])"
    by (simp add: step_defs handler_defs sample_defs page_defs)
  from pages_immutable [OF r] pages_immutable [OF f] r f show ?thesis by simp
qed

lemma step_reference_valid:
  assumes "step e (s, w) = Some (s', w')" and "reference_valid s"
  shows "reference_valid s'"
  using assms
  by (cases e)
     (auto simp: step_defs handler_defs Let_def reference_valid_def
           split: if_splits sum.splits option.splits prod.splits list.splits target.splits)

lemma reachable_reference_valid: "reachable c \<Longrightarrow> reference_valid (fst c)"
proof (induction rule: reachable.induct)
  case start
  show ?case by (simp add: reference_valid_def initial_def)
next
  case (after c e c')
  then show ?case using step_reference_valid [of e "fst c" "snd c" "fst c'" "snd c'"] by simp
qed

lemma run_reachable: "reachable c \<Longrightarrow> run es c = Some c' \<Longrightarrow> reachable c'"
proof (induction es arbitrary: c)
  case Nil
  then show ?case by simp
next
  case (Cons e es)
  then obtain d where d: "step e c = Some d" "run es d = Some c'"
    by (auto split: option.splits)
  from Cons.prems(1) d(1) have "reachable d" by (rule reachable.after)
  from this d(2) show ?case by (rule Cons.IH)
qed

text \<open>
  Claim C10. In every state the application can reach, the active reference is null or
  the identifier of a page in the list. \<^verbatim>\<open>handleRemovePage\<close> resets it when the page it
  names goes, and leaves it alone otherwise; \<^verbatim>\<open>handleSketchUpload\<close>,
  \<^verbatim>\<open>toggleImageMode\<close> and the sidebar's selection assign the identifier of a page
  that is in the list at that moment.
\<close>

theorem reference_always_valid:
  assumes "reachable (s, w)"
  shows "reference_valid s
       \<and> reference_valid (handleRemovePage i s)
       \<and> activeReferencePageId (handleRemovePage i s) =
           (if activeReferencePageId s = Some i then None else activeReferencePageId s)
       \<and> reference_valid (toggleImageMode s)
       \<and> reference_valid (handleSketchUpload_done files s)
       \<and> (\<forall>page\<in>set (pages s). reference_valid (selectReference page s))"
proof -
  have v: "reference_valid s" using reachable_reference_valid [OF assms] by simp
  then show ?thesis
    by (auto simp: reference_valid_def handler_defs Let_def
             split: if_splits sum.splits option.splits prod.splits list.splits)
qed

theorem reference_always_valid_witness:
  "reachable (first_summary, [AwaitAnalysis])
   \<and> activeReferencePageId first_summary = Some ''k3x9q''
   \<and> reference_valid first_summary
   \<and> activeReferencePageId (handleRemovePage ''k3x9q'' first_summary) = None"
proof -
  have r: "reachable (first_summary, [AwaitAnalysis])"
    using run_reachable [OF reachable.start run_photo] .
  from reference_always_valid [OF r, of "''k3x9q''"] r show ?thesis
    by (simp add: first_summary_def)
qed

section \<open>Properties of upload and conversion\<close>

lemma split_from_first:
  "split_from c piece s =
     (if c \<in> set s
      then (piece @ takeWhile (\<lambda>x. x \<noteq> c) s) # split_from c [] (after_first c s)
      else [piece @ s])"
  by (induction s arbitrary: piece) (auto simp: after_first_def)

lemma split_on_once:
  assumes "c \<in> set s" and "c \<notin> set (after_first c s)"
  shows "split_on c s = [takeWhile (\<lambda>x. x \<noteq> c) s, after_first c s]"
proof -
  have "split_from c [] (after_first c s) = [after_first c s]"
    using assms(2) by (subst split_from_first) simp
  with assms(1) show ?thesis
    by (simp add: split_on_def split_from_first [of c "[]" s])
qed

lemma comma_not_base64: "\<not> base64_char CHR '',''"
  by (simp add: base64_char_def)

lemma base64_url_payload:
  assumes "is_base64_data_url u"
  shows "element (split_on CHR '','' u) (Suc 0) = Some (after_first CHR '','' u)"
proof -
  from assms have c: "CHR '','' \<in> set u" and b: "list_all base64_char (after_first CHR '','' u)"
    by (simp_all add: is_base64_data_url_def)
  from b have "CHR '','' \<notin> set (after_first CHR '','' u)"
    using comma_not_base64 by (auto simp: list_all_iff)
  with c show ?thesis by (simp add: split_on_once element_def)
qed

lemma processPdf_loop_eq:
  "processPdf_loop f ps acc =
     (if PageThrows \<in> set ps then Inl PdfFailed else Inr (acc @ pages_of_pdf f ps))"
  by (induction f ps acc rule: processPdf_loop.induct) (auto simp: pages_of_pdf_def)

lemma processPdf_eq:
  "processPdf up =
     (case pdf_up up of
        LoadThrows \<Rightarrow> Inl PdfFailed
      | Loaded ps \<Rightarrow> if PageThrows \<in> set ps then Inl PdfFailed
                     else Inr (pages_of_pdf (file_up up) ps))"
  by (simp add: processPdf_def processPdf_loop_eq split: pdf_result.split)

lemma processFiles_loop_step:
  "processFiles_loop (up # ups) acc =
     (if type_file (file_up up) = ''application/pdf'' \<and> processPdf up = Inl PdfFailed
      then Inl PdfFailed
      else processFiles_loop ups (acc @ pages_of_upload up))"
proof (cases "type_file (file_up up) = ''application/pdf''")
  case True
  then show ?thesis
    by (cases "pdf_up up") (auto simp: processPdf_eq pages_of_upload_def)
next
  case False
  then show ?thesis
    by (cases "read_up up") (auto simp: pages_of_upload_def simp del: Cons_prefix_Cons)
qed

lemma processFiles_loop_Inr:
  "processFiles_loop ups acc = Inr out \<Longrightarrow> out = acc @ concat (map pages_of_upload ups)"
proof (induction ups arbitrary: acc)
  case Nil
  then show ?case by simp
next
  case (Cons up ups)
  from Cons.prems have "processFiles_loop ups (acc @ pages_of_upload up) = Inr out"
    unfolding processFiles_loop_step by (simp split: if_splits)
  from Cons.IH [OF this] show ?case by simp
qed


lemma pages_of_upload_urls:
  assumes "p \<in> set (pages_of_upload up)"
  shows "url p \<in> set (data_urls up) \<and> base64 p = element (split_on CHR '','' (url p)) 1"
proof (cases "type_file (file_up up) = ''application/pdf''")
  case True
  with assms obtain ps where ps: "pdf_up up = Loaded ps" and p: "p \<in> set (pages_of_pdf (file_up up) ps)"
    by (cases "pdf_up up") (auto simp: pages_of_upload_def)
  from p obtain u rid where "Rendered u rid \<in> set ps" "p = rendered_page (file_up up) u rid"
    by (auto simp: pages_of_pdf_def split: pdf_page.splits)
  with ps show ?thesis
    by (force simp: data_urls_def rendered_urls_def rendered_page_def)
next
  case False
  have "\<exists>u. read_up up = ReadOk u \<and> p = image_page (file_up up) u (rid_up up)"
  proof (cases "read_up up")
    case ReadError
    have "pages_of_upload up = []"
      using False ReadError by (simp add: pages_of_upload_def)
    with assms show ?thesis by simp
  next
    case (ReadOk u)
    have "pages_of_upload up = [] \<or> pages_of_upload up = [image_page (file_up up) u (rid_up up)]"
      using False ReadOk by (simp add: pages_of_upload_def)
    with assms ReadOk show ?thesis by auto
  qed
  then show ?thesis by (auto simp: data_urls_def image_page_def)
qed

lemma data_url_shape:
  assumes "CHR '','' \<notin> set mime" and "list_all base64_char payload"
  shows "is_base64_data_url (''data:'' @ mime @ '';base64,'' @ payload)"
    and "after_first CHR '','' (''data:'' @ mime @ '';base64,'' @ payload) = payload"
proof -
  let ?h = "''data:'' @ mime @ '';base64''"
  have u: "''data:'' @ mime @ '';base64,'' @ payload = ?h @ CHR '','' # payload" by simp
  have h: "\<forall>x\<in>set ?h. x \<noteq> CHR '',''" using assms(1) by auto
  have t: "takeWhile (\<lambda>x. x \<noteq> CHR '','') (?h @ CHR '','' # payload) = ?h"
    using h by (subst takeWhile_append2) auto
  show a: "after_first CHR '','' (''data:'' @ mime @ '';base64,'' @ payload) = payload"
    unfolding u after_first_def t by simp
  have s: "suffix '';base64'' ?h" by (simp add: suffix_def)
  show "is_base64_data_url (''data:'' @ mime @ '';base64,'' @ payload)"
    unfolding is_base64_data_url_def a
    unfolding u t using s assms(2) by simp
qed

lemma split_from_hd:
  "split_from c piece s \<noteq> [] \<and> hd (split_from c piece s) = piece @ takeWhile (\<lambda>x. x \<noteq> c) s"
  by (induction s arbitrary: piece) auto

lemma element_split_on:
  "element (split_on CHR '','' u) (Suc 0) = second_piece u"
proof (cases "CHR '','' \<in> set u")
  case True
  let ?rest = "split_from CHR '','' [] (after_first CHR '','' u)"
  have s: "split_on CHR '','' u = takeWhile (\<lambda>x. x \<noteq> CHR '','') u # ?rest"
    using True by (simp add: split_on_def split_from_first [of "CHR '',''" "[]" u])
  have "?rest \<noteq> []" and "hd ?rest = takeWhile (\<lambda>x. x \<noteq> CHR '','') (after_first CHR '','' u)"
    using split_from_hd [of "CHR '',''" "[]" "after_first CHR '','' u"] by simp_all
  then have "?rest ! 0 = takeWhile (\<lambda>x. x \<noteq> CHR '','') (after_first CHR '','' u)"
    by (simp add: hd_conv_nth)
  with \<open>?rest \<noteq> []\<close> True show ?thesis
    unfolding s by (simp add: element_def second_piece_def)
next
  case False
  then show ?thesis
    by (simp add: split_on_def split_from_first [of "CHR '',''" "[]" u] element_def second_piece_def)
qed

lemma page_payload:
  "base64 (image_page f u rid) = second_piece u" "base64 (rendered_page f u rid) = second_piece u"
  by (simp_all add: image_page_def rendered_page_def element_split_on)

lemma second_piece_base64:
  assumes "is_base64_data_url u"
  shows "second_piece u = Some (after_first CHR '','' u)"
  using base64_url_payload [OF assms] by (simp add: element_split_on)

text \<open>
  Claim C6, amended. A page made from an image file, and a page made from a rendered
  PDF page, has as display URL the very string the browser handed back, whatever it is,
  and as transfer payload the second piece of that string split at commas (none if the
  string has no comma). When the string is a base64 data URL,
  \<^verbatim>\<open>data:<mime>;base64,<payload>\<close>, that piece is all of the URL after its first comma,
  the payload. This holds of every page \<^verbatim>\<open>processFiles\<close> makes.
\<close>

theorem page_encodings_consistent:
  "url (image_page f u rid) = u \<and> base64 (image_page f u rid) = second_piece u
   \<and> url (rendered_page f u rid) = u \<and> base64 (rendered_page f u rid) = second_piece u
   \<and> (is_base64_data_url u \<longrightarrow> second_piece u = Some (after_first CHR '','' u))
   \<and> (CHR '','' \<notin> set mime \<and> list_all base64_char payload \<longrightarrow>
        is_base64_data_url (''data:'' @ mime @ '';base64,'' @ payload)
        \<and> second_piece (''data:'' @ mime @ '';base64,'' @ payload) = Some payload)
   \<and> (processFiles_loop ups [] = Inr out \<longrightarrow>
        (\<forall>p\<in>set out. url p \<in> set (concat (map data_urls ups))
                      \<and> base64 p = second_piece (url p)))"
proof (intro conjI impI ballI)
  show "url (image_page f u rid) = u" by (simp add: image_page_def)
  show "url (rendered_page f u rid) = u" by (simp add: rendered_page_def)
  show "base64 (image_page f u rid) = second_piece u"
    and "base64 (rendered_page f u rid) = second_piece u"
    by (rule page_payload)+
next
  assume "is_base64_data_url u"
  then show "second_piece u = Some (after_first CHR '','' u)" by (rule second_piece_base64)
next
  assume a: "CHR '','' \<notin> set mime \<and> list_all base64_char payload"
  then have c: "CHR '','' \<notin> set mime" and l: "list_all base64_char payload" by simp_all
  show d: "is_base64_data_url (''data:'' @ mime @ '';base64,'' @ payload)"
    by (rule data_url_shape(1) [OF c l])
  show "second_piece (''data:'' @ mime @ '';base64,'' @ payload) = Some payload"
    using second_piece_base64 [OF d] data_url_shape(2) [OF c l] by simp
next
  fix p
  assume h: "processFiles_loop ups [] = Inr out" and p: "p \<in> set out"
  from h have "out = concat (map pages_of_upload ups)"
    using processFiles_loop_Inr [of ups "[]" out] by simp
  with p obtain up where up: "up \<in> set ups" "p \<in> set (pages_of_upload up)" by auto
  from pages_of_upload_urls [OF up(2)]
  have u: "url p \<in> set (data_urls up)" and b: "base64 p = element (split_on CHR '','' (url p)) 1"
    by simp_all
  from u up(1) show "url p \<in> set (concat (map data_urls ups))" by auto
  from b show "base64 p = second_piece (url p)" by (simp add: element_split_on)
qed

theorem page_encodings_consistent_witness:
  "CHR '','' \<notin> set ''image/png'' \<and> list_all base64_char ''AAAA''
   \<and> is_base64_data_url ''data:image/png;base64,AAAA''
   \<and> processFiles_loop [photo] [] = Inr [photo_page]
   \<and> url photo_page = ''data:image/png;base64,AAAA''
   \<and> base64 photo_page = second_piece ''data:image/png;base64,AAAA''
   \<and> second_piece ''data:image/png;base64,AAAA'' = Some ''AAAA''
   \<and> second_piece ''data:image/png;base64,AAAA'' =
       Some (after_first CHR '','' ''data:image/png;base64,AAAA'')"
proof -
  note th = page_encodings_consistent [where f = "file_up photo" and u = "''data:image/png;base64,AAAA''"
      and rid = "rid_up photo" and ups = "[photo]" and out = "[photo_page]"
      and mime = "''image/png''" and payload = "''AAAA''"]
  have m: "CHR '','' \<notin> set ''image/png'' \<and> list_all base64_char ''AAAA''"
    by (simp add: base64_char_def)
  have l: "processFiles_loop [photo] [] = Inr [photo_page]"
    by (simp add: sample_defs page_defs)
  have d: "is_base64_data_url ''data:image/png;base64,AAAA''"
    and s: "second_piece ''data:image/png;base64,AAAA'' = Some ''AAAA''"
    using th [THEN conjunct2, THEN conjunct2, THEN conjunct2, THEN conjunct2, THEN conjunct2,
              THEN conjunct1] m by simp_all
  have a: "second_piece ''data:image/png;base64,AAAA'' =
       Some (after_first CHR '','' ''data:image/png;base64,AAAA'')"
    using th [THEN conjunct2, THEN conjunct2, THEN conjunct2, THEN conjunct2, THEN conjunct1] d
    by (rule mp)
  have b: "\<forall>p\<in>set [photo_page]. url p \<in> set (concat (map data_urls [photo]))
                      \<and> base64 p = second_piece (url p)"
    using th [THEN conjunct2, THEN conjunct2, THEN conjunct2, THEN conjunct2, THEN conjunct2,
              THEN conjunct2] l by (rule mp)
  from m d l s b show ?thesis using a by (simp add: photo_page_def)
qed

text \<open>
  Claim C6 as stated fails: the display URL need not be a base64 data URL. For a canvas
  without area \<^verbatim>\<open>toDataURL\<close> returns \<^verbatim>\<open>data:,\<close>; the code makes a page of it all the
  same, with that string as URL and the empty string as payload.
\<close>

theorem blank_canvas_page:
  "processFiles_loop [blank] [] =
     Inr [\<lparr> id_page = ''p1'', url = ''data:,'',
            file_page = \<lparr>name_file = ''b.pdf'', type_file = ''application/pdf''\<rparr>,
            base64 = Some [], mimeType = ''image/jpeg'' \<rparr>]
   \<and> \<not> is_base64_data_url ''data:,''"
  by (simp add: blank_def processPdf_def page_defs is_base64_data_url_def suffix_to_prefix)




section \<open>Properties of the canvas editor\<close>

lemmas editor_defs =
  handleContainerMouseUp_def saveState_def sync_effect_def settle_def mouseUp_def
  handleAssetUpdate_def

lemmas editor_samples =
  card_def sketch_def studio_def drawing_def link_def initial_ed_def uploaded_def initial_def

text \<open>
  Release after a drag: the parent gets the editor's cards and connections as they
  are, and the effect that follows leaves the editor with the same lists.
\<close>

lemma mouseUp_after_drag:
  assumes "isDragging ed" and "\<not> (isDrawingLine ed \<and> truthy (lineStartNodeId ed))"
    and "generatedAsset s = Some a"
  shows "mouseUp now (s, ed) =
           (s\<lparr>generatedAsset :=
                Some (a\<lparr>nodes := Some (nodes_ed ed), connections := Some (connections_ed ed)\<rparr>)\<rparr>,
            ed\<lparr>isDragging := False\<rparr>)"
  using assms by (auto simp: editor_defs Let_def)

text \<open>
  Release after a link-draw: what the parent gets holds the connections from before
  the gesture, and the effect that follows puts these back into the editor.
\<close>

lemma mouseUp_after_link:
  assumes "isDrawingLine ed" and "truthy (lineStartNodeId ed)" and "\<not> isDragging ed"
    and "generatedAsset s = Some a"
  shows "generatedAsset (fst (mouseUp now (s, ed))) =
           Some (a\<lparr>nodes := Some (nodes_ed ed), connections := Some (connections_ed ed)\<rparr>)"
    and "connections_ed (snd (mouseUp now (s, ed))) = connections_ed ed"
    and "connections_ed (fst (handleContainerMouseUp (generatedAsset s) now ed)) \<noteq> connections_ed ed"
  using assms by (auto simp: editor_defs Let_def)

text \<open>
  Claim C3 is what the code is after and misses. The editor is drawing a link from its
  one card, with the pointer at \<open>(300, 200)\<close>. On release the handler appends the new
  connection to its own list, but \<^verbatim>\<open>saveState\<close> still reads the list of the last render:
  the asset handed to the parent has no connection. The parent stores it, and the
  effect then copies its empty connection list back into the editor.
\<close>

theorem link_not_saved:
  "handleContainerMouseUp (Some sketch) ''1700000000000'' drawing =
     (drawing\<lparr>connections_ed := [link], isDrawingLine := False, lineStartNodeId := None\<rparr>,
      [sketch])
   \<and> connections sketch = Some []
   \<and> mouseUp ''1700000000000'' (studio, drawing) =
     (studio, drawing\<lparr>isDrawingLine := False, lineStartNodeId := None\<rparr>)
   \<and> connections_ed (drawing\<lparr>isDrawingLine := False, lineStartNodeId := None\<rparr>) = []"
  by (simp add: editor_defs editor_samples truthy_def)

text \<open>
  What the handlers do to the editor's own list of connections: the release handler,
  while a link is being drawn from a start node (a non-empty identifier), queues the
  append of exactly one connection, from the start node to the pointer position the
  editor holds, and resets the drawing state; a release in any other state and every
  other handler leave the list as it is or remove from it; the effect installs the
  parent's list.
\<close>

lemma handler_appends_connection:
  assumes "isDrawingLine ed" and "lineStartNodeId ed = Some start" and "start \<noteq> []"
  shows "connections_ed (fst (handleContainerMouseUp asset now ed)) =
           connections_ed ed @
             [\<lparr> id_conn = ''conn-'' @ now, fromNodeId = start,
                toX = x_pt (mousePos ed), toY = y_pt (mousePos ed) \<rparr>]
       \<and> \<not> isDrawingLine (fst (handleContainerMouseUp asset now ed))
       \<and> lineStartNodeId (fst (handleContainerMouseUp asset now ed)) = None
       \<and> (\<not> (isDrawingLine ed' \<and> truthy (lineStartNodeId ed')) \<longrightarrow>
            connections_ed (fst (handleContainerMouseUp asset now ed')) = connections_ed ed')
       \<and> connections_ed (handleCardMouseDown sub client rect containerRect node ed') = connections_ed ed'
       \<and> connections_ed (handleContainerMouseMove sub client containerRect ed') = connections_ed ed'
       \<and> mousePos (handleContainerMouseMove sub client (Some corner) ed') =
            \<lparr> x_pt = sub (x_pt client) (x_pt corner), y_pt = sub (y_pt client) (y_pt corner) \<rparr>
       \<and> connections_ed (updateSelectedNode updates ed') = connections_ed ed'
       \<and> connections_ed (startConnection sub client containerRect nodeId ed') = connections_ed ed'
       \<and> lineStartNodeId (startConnection sub client containerRect nodeId ed') = Some nodeId
       \<and> isDrawingLine (startConnection sub client containerRect nodeId ed')
       \<and> connections_ed (fst (doneEditing asset ed')) = connections_ed ed'
       \<and> connections_ed (fst (removeConnection asset i ed')) =
            filter (\<lambda>c. id_conn c \<noteq> i) (connections_ed ed')
       \<and> (connections_ed (sync_effect asset ed') = connections_ed ed'
            \<or> (\<exists>a. asset = Some a \<and> connections a = Some (connections_ed (sync_effect asset ed'))))"
  using assms
  by (auto simp: handleContainerMouseUp_def handleCardMouseDown_def handleContainerMouseMove_def
        updateSelectedNode_def startConnection_def doneEditing_def removeConnection_def
        sync_effect_def truthy_def Let_def
      split: option.splits)

text \<open>
  A release as a whole (handler, parent, effect) never changes the editor's list of
  connections while the parent holds an asset, and the canvas is there only then.
\<close>

lemma release_keeps_connections:
  assumes "generatedAsset s = Some a"
  shows "connections_ed (snd (mouseUp now (s, ed))) = connections_ed ed"
  using assms by (auto simp: editor_defs Let_def)

text \<open>
  Claim C4 is what the code is after and misses, by the defect of claim C3. The whole
  gesture on the canvas with its one card: \<^verbatim>\<open>startConnection\<close> on the card records the
  card as start node and the pointer's place, a move records the new place, and the
  release handler appends one connection from the card to that place. But the asset
  saved by the handler has the list of the last render, and once the parent and the
  effect have run, the editor's list is empty as before: no connection was added.
\<close>

theorem link_lost_after_release:
  "startConnection sub client (Some corner) (id_node card) resting =
     resting\<lparr>lineStartNodeId := Some ''node-1699999990000-0'', isDrawingLine := True,
       mousePos := \<lparr>x_pt = sub (x_pt client) (x_pt corner),
                    y_pt = sub (y_pt client) (y_pt corner)\<rparr>\<rparr>
   \<and> connections_ed
       (fst (handleContainerMouseUp (Some sketch) ''1700000000000''
          (handleContainerMouseMove sub target (Some corner)
             (startConnection sub client (Some corner) (id_node card) resting)))) =
     [\<lparr> id_conn = ''conn-1700000000000'', fromNodeId = ''node-1699999990000-0'',
        toX = sub (x_pt target) (x_pt corner), toY = sub (y_pt target) (y_pt corner) \<rparr>]
   \<and> connections_ed
       (snd (mouseUp ''1700000000000''
          (studio, handleContainerMouseMove sub target (Some corner)
                     (startConnection sub client (Some corner) (id_node card) resting)))) = []
   \<and> connections_ed resting = []"
  by (simp add: editor_defs editor_samples resting_def startConnection_def
        handleContainerMouseMove_def truthy_def Let_def)

end
